theory Spec2Isabelle
  imports Main
begin

text \<open>
  The repository holds two plugins for an agent runtime. The Zora plugin is
  \<open>src/provider.ts\<close> (client bootstrap and wallet provider), \<open>src/actions.ts\<close>
  (the \<open>CREATE_COIN\<close> and \<open>TRADE_COIN\<close> actions) and \<open>src/index.ts\<close> (plugin load);
  the Polymarket plugin has the same three parts, with the one action
  \<open>GET_POLYMARKET_EVENTS\<close>. This theory embeds them function by function, under the
  names of the source. Where the repository also keeps an earlier copy of a file (a
  provider bound to Base only, actions without metadata resolution), the current file is
  the one embedded. What the plugins write to the console is not part of the model.
\<close>

section \<open>JavaScript strings\<close>

text \<open>
  A JavaScript string is a sequence of code units. The model works with the code units
  below 256 (the Latin-1 range), one \<^typ>\<open>char\<close> each; on these the four string
  methods the plugins use are as follows.
\<close>

definition startsWith :: "string \<Rightarrow> string \<Rightarrow> bool" where
  "startsWith s p = (take (length p) s = p)"

fun str_includes :: "string \<Rightarrow> string \<Rightarrow> bool" where
  "str_includes [] p = (p = [])"
| "str_includes (c # cs) p = (startsWith (c # cs) p \<or> str_includes cs p)"

text \<open>White space of \<open>String.prototype.trim\<close>: TAB, LF, VT, FF, CR, SP and NBSP.\<close>

definition isWhiteSpace :: "char \<Rightarrow> bool" where
  "isWhiteSpace c = (of_char c \<in> {9, 10, 11, 12, 13, 32, 160 :: nat})"

definition trim :: "string \<Rightarrow> string" where
  "trim s = rev (dropWhile isWhiteSpace (rev (dropWhile isWhiteSpace s)))"

text \<open>
  \<open>toLowerCase\<close>: \<open>A\<close>..\<open>Z\<close> and the Latin-1 capitals 0xC0..0xDE (but the
  multiplication sign 0xD7) move up by 32; every other code unit stays.
\<close>

definition lowerChar :: "char \<Rightarrow> char" where
  "lowerChar c =
     (let n = (of_char c :: nat)
      in if (65 \<le> n \<and> n \<le> 90) \<or> (192 \<le> n \<and> n \<le> 222 \<and> n \<noteq> 215)
         then char_of (n + 32) else c)"

definition toLowerCase :: "string \<Rightarrow> string" where
  "toLowerCase s = map lowerChar s"

section \<open>The process environment\<close>

text \<open>
  \<open>process.env\<close> maps a variable name to its value, or to nothing (\<open>undefined\<close>).
  \<open>!v\<close> holds of \<open>undefined\<close> and of the empty string.
\<close>

type_synonym env = "string \<Rightarrow> string option"

definition falsy :: "string option \<Rightarrow> bool" where
  "falsy v = (case v of None \<Rightarrow> True | Some s \<Rightarrow> s = [])"

text \<open>\<open>v || ''\<close> on an optional string.\<close>

definition orEmpty :: "string option \<Rightarrow> string" where
  "orEmpty v = (case v of None \<Rightarrow> [] | Some s \<Rightarrow> s)"

section \<open>JavaScript values and thrown values\<close>

text \<open>
  The values of type \<open>any\<close> the plugins pass around (SDK results, tool results, pin
  service replies) are trees. A Number is carried by its \<open>Number::toString\<close> rendering
  (\<open>NaN\<close>, \<open>Infinity\<close> and \<open>-Infinity\<close> for the non-finite ones), a BigInt by its
  integer value, an object by its own enumerable properties in enumeration order.
\<close>

datatype jsval =
    JUndefined
  | JNull
  | JBool bool
  | JNum string
  | JBigInt int
  | JStr string
  | JArr "jsval list"
  | JObj "(string \<times> jsval) list"

text \<open>
  What a \<open>throw\<close> carries: an \<open>Error\<close> object with its message; a value of the kind
  above; or an object that is no \<open>Error\<close> and that \<open>String\<close> cannot convert (one with no
  prototype, one whose \<open>toString\<close> throws), with what the conversion throws.
\<close>

datatype thrown = JsError string | JsValue jsval | JsOpaque thrown


subsection \<open>Coercions and property reads\<close>

definition digitChar :: "nat \<Rightarrow> char" where
  "digitChar n = ''0123456789'' ! n"

function natToString :: "nat \<Rightarrow> string" where
  "natToString n =
     (if n < 10 then [digitChar n] else natToString (n div 10) @ [digitChar (n mod 10)])"
  by pat_completeness auto
termination
  by (relation "measure id") auto

declare natToString.simps [simp del]

text \<open>\<open>BigInt.prototype.toString\<close>: the decimal digits, with a minus sign below zero.\<close>

definition bigintToString :: "int \<Rightarrow> string" where
  "bigintToString i =
     (if i < 0 then CHR ''-'' # natToString (nat (- i)) else natToString (nat i))"

text \<open>
  \<open>String(v)\<close>, which a template literal applies to each value it embeds. An array is its
  elements joined by commas, \<open>undefined\<close> and \<open>null\<close> elements left empty.
\<close>

fun toString :: "jsval \<Rightarrow> string" and joinElements :: "jsval list \<Rightarrow> string" where
  "toString JUndefined = ''undefined''"
| "toString JNull = ''null''"
| "toString (JBool b) = (if b then ''true'' else ''false'')"
| "toString (JNum r) = r"
| "toString (JBigInt i) = bigintToString i"
| "toString (JStr s) = s"
| "toString (JArr xs) = joinElements xs"
| "toString (JObj kvs) = ''[object Object]''"
| "joinElements [] = []"
| "joinElements (x # xs) =
     (if x = JUndefined \<or> x = JNull then [] else toString x)
     @ (if xs = [] then [] else CHR '','' # joinElements xs)"

text \<open>\<open>ToBoolean\<close>, as \<open>!v\<close>, \<open>a || b\<close> and \<open>if (v)\<close> apply it.\<close>

fun truthy :: "jsval \<Rightarrow> bool" where
  "truthy JUndefined = False"
| "truthy JNull = False"
| "truthy (JBool b) = b"
| "truthy (JNum r) = (r \<noteq> ''0'' \<and> r \<noteq> ''NaN'')"
| "truthy (JBigInt i) = (i \<noteq> 0)"
| "truthy (JStr s) = (s \<noteq> [])"
| "truthy (JArr xs) = True"
| "truthy (JObj kvs) = True"

text \<open>
  Reading a property \<open>v.p\<close> (for the property names the plugins read, none of which
  a primitive or an array has): a \<open>TypeError\<close> on \<open>undefined\<close> and \<open>null\<close>.
\<close>

fun getProp :: "jsval \<Rightarrow> string \<Rightarrow> thrown + jsval" where
  "getProp JUndefined p =
     Inl (JsError (''Cannot read properties of undefined (reading '' @ [CHR 0x27] @ p
       @ [CHR 0x27] @ '')''))"
| "getProp JNull p =
     Inl (JsError (''Cannot read properties of null (reading '' @ [CHR 0x27] @ p
       @ [CHR 0x27] @ '')''))"
| "getProp (JObj kvs) p = Inr (case map_of kvs p of None \<Rightarrow> JUndefined | Some v \<Rightarrow> v)"
| "getProp v p = Inr JUndefined"

text \<open>
  \<open>error instanceof Error ? error.message : String(error)\<close>, as every handler has it in
  its \<open>catch\<close>: the message, or what \<open>String(error)\<close> throws.
\<close>

definition errorMessage :: "thrown \<Rightarrow> thrown + string" where
  "errorMessage e =
     (case e of JsError m \<Rightarrow> Inr m | JsValue v \<Rightarrow> Inr (toString v) | JsOpaque x \<Rightarrow> Inl x)"

text \<open>
  \<open>error.message\<close> with no test before it, as the providers have it. An object that
  \<open>String\<close> cannot convert is taken to have no \<open>message\<close> property.
\<close>

definition messageOf :: "thrown \<Rightarrow> thrown + jsval" where
  "messageOf e =
     (case e of
        JsError m \<Rightarrow> Inr (JStr m)
      | JsValue v \<Rightarrow> getProp v ''message''
      | JsOpaque x \<Rightarrow> Inr JUndefined)"

section \<open>JSON.stringify\<close>

definition hexDigit :: "nat \<Rightarrow> char" where
  "hexDigit n = (if n < 10 then char_of (48 + n) else char_of (87 + n))"

text \<open>
  \<open>QuoteJSONString\<close>: the quote, the backslash and the control characters are escaped
  (\<open>CHR 0x5C\<close> is the backslash, \<open>CHR 0x22\<close> the double quote).
\<close>

definition escapeChar :: "char \<Rightarrow> string" where
  "escapeChar c =
     (let n = (of_char c :: nat)
      in if n = 8 then [CHR 0x5C, CHR ''b'']
         else if n = 9 then [CHR 0x5C, CHR ''t'']
         else if n = 10 then [CHR 0x5C, CHR ''n'']
         else if n = 12 then [CHR 0x5C, CHR ''f'']
         else if n = 13 then [CHR 0x5C, CHR ''r'']
         else if n = 34 then [CHR 0x5C, CHR 0x22]
         else if n = 92 then [CHR 0x5C, CHR 0x5C]
         else if n < 32
           then [CHR 0x5C, CHR ''u'', CHR ''0'', CHR ''0'', hexDigit (n div 16), hexDigit (n mod 16)]
         else [c])"

definition quoteJSONString :: "string \<Rightarrow> string" where
  "quoteJSONString s = CHR 0x22 # concat (map escapeChar s) @ [CHR 0x22]"

fun joinWith :: "string \<Rightarrow> string list \<Rightarrow> string" where
  "joinWith sep [] = []"
| "joinWith sep [x] = x"
| "joinWith sep (x # y # ys) = x @ sep @ joinWith sep (y # ys)"

text \<open>
  The closing step of \<open>SerializeJSONObject\<close> and \<open>SerializeJSONArray\<close>: the parts
  between the brackets, on lines of their own when there is a gap.
\<close>

definition bracket :: "string \<Rightarrow> string \<Rightarrow> string \<Rightarrow> string \<Rightarrow> string list \<Rightarrow> string" where
  "bracket l r gap stepback partial =
     (if partial = [] then l @ r
      else if gap = [] then l @ joinWith '','' partial @ r
      else l @ [CHR 0x0A] @ (stepback @ gap)
           @ joinWith ('','' @ [CHR 0x0A] @ (stepback @ gap)) partial
           @ [CHR 0x0A] @ stepback @ r)"

text \<open>
  The replacer of \<open>safeStringify\<close>:
  \<open>(_key, val) => (typeof val === 'bigint' ? val.toString() : val)\<close>.
\<close>

definition replacer :: "jsval \<Rightarrow> jsval" where
  "replacer val = (case val of JBigInt i \<Rightarrow> JStr (bigintToString i) | _ \<Rightarrow> val)"

text \<open>
  \<open>SerializeJSONProperty\<close>. The source calls \<open>JSON.stringify\<close> with no replacer and with
  the replacer above; the flag \<open>rep\<close> says which. That replacer changes a BigInt only, into
  a string, so under it a BigInt is serialized as the replacer's string; with no replacer a
  BigInt is a \<open>TypeError\<close>. The result \<open>None\<close> is \<open>undefined\<close>: an object leaves such a
  member out, an array writes \<open>null\<close> for it.
\<close>

fun serializeJSONProperty :: "bool \<Rightarrow> string \<Rightarrow> string \<Rightarrow> jsval \<Rightarrow> thrown + string option"
  and serializeElements :: "bool \<Rightarrow> string \<Rightarrow> string \<Rightarrow> jsval list \<Rightarrow> thrown + string list"
  and serializeMembers :: "bool \<Rightarrow> string \<Rightarrow> string \<Rightarrow> (string \<times> jsval) list \<Rightarrow> thrown + string list"
where
  "serializeJSONProperty rep gap ind JUndefined = Inr None"
| "serializeJSONProperty rep gap ind JNull = Inr (Some ''null'')"
| "serializeJSONProperty rep gap ind (JBool b) = Inr (Some (if b then ''true'' else ''false''))"
| "serializeJSONProperty rep gap ind (JNum r) =
     Inr (Some (if r = ''NaN'' \<or> r = ''Infinity'' \<or> r = ''-Infinity'' then ''null'' else r))"
| "serializeJSONProperty rep gap ind (JBigInt i) =
     (if rep then Inr (Some (quoteJSONString (toString (replacer (JBigInt i)))))
      else Inl (JsError ''Do not know how to serialize a BigInt''))"
| "serializeJSONProperty rep gap ind (JStr s) = Inr (Some (quoteJSONString s))"
| "serializeJSONProperty rep gap ind (JArr xs) =
     (case serializeElements rep gap (ind @ gap) xs of
        Inl e \<Rightarrow> Inl e
      | Inr partial \<Rightarrow> Inr (Some (bracket ''['' '']'' gap ind partial)))"
| "serializeJSONProperty rep gap ind (JObj kvs) =
     (case serializeMembers rep gap (ind @ gap) kvs of
        Inl e \<Rightarrow> Inl e
      | Inr partial \<Rightarrow> Inr (Some (bracket ''{'' ''}'' gap ind partial)))"
| "serializeElements rep gap ind [] = Inr []"
| "serializeElements rep gap ind (x # xs) =
     (case serializeJSONProperty rep gap ind x of
        Inl e \<Rightarrow> Inl e
      | Inr strP \<Rightarrow>
          (case serializeElements rep gap ind xs of
             Inl e \<Rightarrow> Inl e
           | Inr rest \<Rightarrow> Inr ((case strP of None \<Rightarrow> ''null'' | Some t \<Rightarrow> t) # rest)))"
| "serializeMembers rep gap ind [] = Inr []"
| "serializeMembers rep gap ind ((k, v) # kvs) =
     (case serializeJSONProperty rep gap ind v of
        Inl e \<Rightarrow> Inl e
      | Inr strP \<Rightarrow>
          (case serializeMembers rep gap ind kvs of
             Inl e \<Rightarrow> Inl e
           | Inr rest \<Rightarrow>
               Inr ((case strP of
                       None \<Rightarrow> []
                     | Some t \<Rightarrow>
                         [quoteJSONString k @ '':'' @ (if gap = [] then [] else '' '') @ t])
                    @ rest)))"

text \<open>
  \<open>JSON.stringify(value, replacer, space)\<close> with the gap that \<open>space\<close> gives (the empty
  string when there is none, two blanks for \<open>2\<close>).
\<close>

definition JSON_stringify :: "bool \<Rightarrow> string \<Rightarrow> jsval \<Rightarrow> thrown + string option" where
  "JSON_stringify rep gap value = serializeJSONProperty rep gap [] value"

text \<open>A template literal writes \<open>undefined\<close> where \<open>JSON.stringify\<close> returned it.\<close>

definition interpolate :: "string option \<Rightarrow> string" where
  "interpolate r = (case r of None \<Rightarrow> ''undefined'' | Some t \<Rightarrow> t)"

section \<open>Clients\<close>

datatype chain = Base | BaseSepolia | Polygon

record account =
  address :: string

record publicClient =
  pc_chain :: chain
  pc_transport :: string

record walletClient =
  wc_account :: account
  wc_chain :: chain
  wc_transport :: string

record zoraClients =
  zc_publicClient :: publicClient
  zc_walletClient :: walletClient
  zc_account :: account


text \<open>A tool of the Polymarket tool list: its name and its two ways of running it.\<close>

record tool =
  tool_name :: "string option"
  tool_execute :: "(jsval \<Rightarrow> thrown + jsval) option"
  tool_call :: "(jsval \<Rightarrow> thrown + jsval) option"

record polymarketClient =
  pm_tools :: "tool list"
  pm_walletClient :: walletClient
  pm_account :: account

section \<open>Parameters, requests and callback payloads\<close>

datatype currencyName = ZORA | ETH

datatype sellType = Eth

datatype buyType = Erc20

text \<open>The object that \<open>createCoinSchema\<close> describes.\<close>

record createCoinParameters =
  p_name :: string
  p_symbol :: string
  p_uri :: "string option"
  p_image :: "string option"
  p_description :: "string option"
  p_payoutRecipient :: string
  p_platformReferrer :: "string option"
  p_currency :: "currencyName option"

text \<open>The argument of \<open>ensureMetadataUri\<close>.\<close>

record metadataParams =
  m_name :: string
  m_symbol :: string
  m_uri :: "string option"
  m_image :: "string option"
  m_description :: "string option"

text \<open>\<open>coinParams\<close>, the first argument of the SDK's \<open>createCoin\<close>.\<close>

record coinParams =
  cp_name :: string
  cp_symbol :: string
  cp_uri :: string
  cp_payoutRecipient :: string
  cp_platformReferrer :: "string option"
  cp_currency :: currencyName

text \<open>The object that \<open>tradeCoinSchema\<close> describes; a Number is carried by its rendering.\<close>

record tradeCoinParameters =
  t_sellType :: sellType
  t_buyType :: buyType
  t_coinAddress :: string
  t_amountIn :: string
  t_slippage :: string

record tradeParameters =
  tp_sell :: sellType
  tp_buy :: buyType
  tp_buy_address :: string
  tp_amountIn :: int
  tp_slippage :: string
  tp_sender :: string

record request =
  rq_url :: string
  rq_method :: string
  rq_headers :: "(string \<times> string) list"
  rq_body :: string

text \<open>A fetch response: \<open>rs_text\<close> and \<open>rs_json\<close> are what \<open>text()\<close> and \<open>json()\<close> settle to.\<close>

record response =
  rs_ok :: bool
  rs_status :: nat
  rs_statusText :: string
  rs_text :: "thrown + string"
  rs_json :: "thrown + jsval"

datatype content =
    ErrorContent string
  | CoinContent jsval jsval jsval
  | TradeContent jsval jsval
  | ToolContent jsval

record payload =
  cb_text :: string
  cb_content :: content

section \<open>Effects\<close>

text \<open>
  The calls that leave the plugin and that the specification counts: client construction,
  the pin request, the SDK operations, running a tool, and the result callback.
\<close>

datatype event =
    PrivateKeyToAccount string
  | CreatePublicClient chain string
  | CreateWalletClient account chain string
  | GetOnChainTools walletClient string string string
  | Fetch request
  | CreateCoin coinParams walletClient publicClient nat
  | TradeCoin tradeParameters walletClient account publicClient
  | ToolExecute "string option" jsval
  | ToolCall "string option" jsval
  | Callback payload

text \<open>
  An asynchronous computation is the list of the calls it made, in order, and how it
  settled: rejected with a thrown value (\<open>Inl\<close>) or fulfilled (\<open>Inr\<close>).
\<close>

type_synonym 'a eff = "event list \<times> (thrown + 'a)"

definition eff_return :: "'a \<Rightarrow> 'a eff" where
  "eff_return x = ([], Inr x)"

definition eff_throw :: "thrown \<Rightarrow> 'a eff" where
  "eff_throw e = ([], Inl e)"

definition eff_bind :: "'a eff \<Rightarrow> ('a \<Rightarrow> 'b eff) \<Rightarrow> 'b eff" where
  "eff_bind m f =
     (case m of
        (t, Inl e) \<Rightarrow> (t, Inl e)
      | (t, Inr x) \<Rightarrow> (case f x of (t', r) \<Rightarrow> (t @ t', r)))"

text \<open>\<open>try { m } catch (error) { h error }\<close>.\<close>

definition try_catch :: "'a eff \<Rightarrow> (thrown \<Rightarrow> 'a eff) \<Rightarrow> 'a eff" where
  "try_catch m h =
     (case m of
        (t, Inl e) \<Rightarrow> (case h e of (t', r) \<Rightarrow> (t @ t', r))
      | (t, Inr x) \<Rightarrow> (t, Inr x))"

text \<open>A counted call, and a call or an expression that is not counted.\<close>

definition call :: "event \<Rightarrow> thrown + 'a \<Rightarrow> 'a eff" where
  "call ev r = ([ev], r)"

definition await :: "thrown + 'a \<Rightarrow> 'a eff" where
  "await r = ([], r)"

text \<open>A library that signals failure by throwing an \<open>Error\<close> with a message.\<close>

definition raising :: "string + 'a \<Rightarrow> thrown + 'a" where
  "raising r = (case r of Inl m \<Rightarrow> Inl (JsError m) | Inr x \<Rightarrow> Inr x)"

section \<open>External collaborators\<close>

text \<open>
  What the plugins call and do not define. \<open>privateKeyToAccount\<close> and \<open>parseEther\<close>
  are viem's: they return, or throw one of viem's \<open>Error\<close> classes with a message. The
  tool discovery and the two coin operations return any value or throw any value.
\<close>

record externals =
  privateKeyToAccount :: "string \<Rightarrow> string + account"
  parseEther :: "string \<Rightarrow> string + int"
  getOnChainTools :: "walletClient \<Rightarrow> string \<Rightarrow> string \<Rightarrow> string \<Rightarrow> thrown + tool list"
  createCoin :: "coinParams \<Rightarrow> walletClient \<Rightarrow> publicClient \<Rightarrow> nat \<Rightarrow> thrown + jsval"
  tradeCoin :: "tradeParameters \<Rightarrow> walletClient \<Rightarrow> account \<Rightarrow> publicClient \<Rightarrow> thrown + jsval"

text \<open>
  The agent runtime and the functions of the core package that take it. \<open>generateObject\<close>
  is given once per schema, returning the \<open>object\<close> of its result; \<open>now\<close> is the value
  of \<open>Date.now()\<close>.
\<close>

record ('st, 'msg) runtime =
  composeState :: "'msg \<Rightarrow> thrown + 'st"
  updateRecentMessageState :: "'st \<Rightarrow> thrown + 'st"
  composeContext :: "'st \<Rightarrow> string \<Rightarrow> thrown + string"
  generateObject_createCoin :: "string \<Rightarrow> thrown + createCoinParameters"
  generateObject_tradeCoin :: "string \<Rightarrow> thrown + tradeCoinParameters"
  generateObject_events :: "string \<Rightarrow> thrown + jsval"
  generateText :: "string \<Rightarrow> thrown + string"
  fetch :: "request \<Rightarrow> thrown + response"
  now :: nat

section \<open>Client bootstrap\<close>

text \<open>
  viem's \<open>createPublicClient\<close> and \<open>createWalletClient\<close> build a handle from their
  configuration and connect to nothing.
\<close>

definition createPublicClient :: "chain \<Rightarrow> string \<Rightarrow> publicClient eff" where
  "createPublicClient c rpc =
     call (CreatePublicClient c rpc) (Inr \<lparr>pc_chain = c, pc_transport = rpc\<rparr>)"

definition createWalletClient :: "account \<Rightarrow> chain \<Rightarrow> string \<Rightarrow> walletClient eff" where
  "createWalletClient a c rpc =
     call (CreateWalletClient a c rpc) (Inr \<lparr>wc_account = a, wc_chain = c, wc_transport = rpc\<rparr>)"

text \<open>
  \<open>getZoraClients\<close> of the Zora provider. Past the check both required values are
  non-empty strings, which \<open>orEmpty\<close> reads.
\<close>

definition getZoraClients :: "externals \<Rightarrow> env \<Rightarrow> zoraClients eff" where
  "getZoraClients ext env =
     (let rpcUrl = env ''ZORA_RPC_URL'';
          privateKey = env ''ZORA_PRIVATE_KEY''
      in if falsy rpcUrl \<or> falsy privateKey
         then eff_throw (JsError ''Missing required Zora credentials. Please set ZORA_RPC_URL and ZORA_PRIVATE_KEY environment variables.'')
         else
           let zoraChainEnv = toLowerCase (orEmpty (env ''ZORA_CHAIN''));
               rpcUrlLower = toLowerCase (orEmpty rpcUrl);
               isSepoliaEnv = (zoraChainEnv = ''base-sepolia'' \<or> zoraChainEnv = ''basesepolia''
                               \<or> zoraChainEnv = ''sepolia'');
               isSepoliaRpc = (str_includes rpcUrlLower ''sepolia''
                               \<or> str_includes rpcUrlLower ''84532'');
               chain = (if isSepoliaEnv \<or> isSepoliaRpc then BaseSepolia else Base)
           in eff_bind (call (PrivateKeyToAccount (orEmpty privateKey))
                          (raising (privateKeyToAccount ext (orEmpty privateKey)))) (\<lambda>account.
              eff_bind (createPublicClient chain (orEmpty rpcUrl)) (\<lambda>publicClient.
              eff_bind (createWalletClient account chain (orEmpty rpcUrl)) (\<lambda>walletClient.
              eff_return \<lparr>zc_publicClient = publicClient, zc_walletClient = walletClient,
                          zc_account = account\<rparr>))))"

definition zoraProvider_get :: "externals \<Rightarrow> env \<Rightarrow> string eff" where
  "zoraProvider_get ext env =
     try_catch
       (eff_bind (getZoraClients ext env) (\<lambda>clients.
        eff_return (''Zora Wallet Address: '' @ address (zc_account clients))))
       (\<lambda>error.
        eff_bind (await (messageOf error)) (\<lambda>message.
        eff_return (''Error initializing Zora wallet: '' @ toString message)))"

text \<open>\<open>getPolymarketClient\<close> of the Polymarket provider.\<close>

definition getPolymarketClient :: "externals \<Rightarrow> env \<Rightarrow> polymarketClient eff" where
  "getPolymarketClient ext env =
     (let apiKey = env ''POLYMARKET_API_KEY'';
          apiSecret = env ''POLYMARKET_SECRET'';
          apiPassphrase = env ''POLYMARKET_PASSPHRASE'';
          walletPrivateKey = env ''WALLET_PRIVATE_KEY'';
          rpcProviderUrl = env ''RPC_PROVIDER_URL''
      in if falsy apiKey \<or> falsy apiSecret \<or> falsy apiPassphrase
         then eff_throw (JsError ''Missing required Polymarket API credentials. Please set POLYMARKET_API_KEY, POLYMARKET_SECRET, and POLYMARKET_PASSPHRASE environment variables.'')
         else if falsy walletPrivateKey \<or> falsy rpcProviderUrl
         then eff_throw (JsError ''Missing required wallet configuration. Please set WALLET_PRIVATE_KEY and RPC_PROVIDER_URL environment variables.'')
         else
           try_catch
             (eff_bind (call (PrivateKeyToAccount (orEmpty walletPrivateKey))
                          (raising (privateKeyToAccount ext (orEmpty walletPrivateKey)))) (\<lambda>account.
              eff_bind (createWalletClient account Polygon (orEmpty rpcProviderUrl)) (\<lambda>walletClient.
              eff_bind (call (GetOnChainTools walletClient (orEmpty apiKey) (orEmpty apiSecret)
                                (orEmpty apiPassphrase))
                          (getOnChainTools ext walletClient (orEmpty apiKey) (orEmpty apiSecret)
                             (orEmpty apiPassphrase))) (\<lambda>tools.
              eff_return \<lparr>pm_tools = tools, pm_walletClient = walletClient,
                          pm_account = account\<rparr>))))
             (\<lambda>error.
              eff_bind (await (messageOf error)) (\<lambda>message.
              eff_throw (JsError (''Failed to initialize Polymarket client: ''
                @ toString (if truthy message then message else JStr ''Unknown error''))))))"

definition walletProvider_get :: "externals \<Rightarrow> env \<Rightarrow> string eff" where
  "walletProvider_get ext env =
     try_catch
       (eff_bind (getPolymarketClient ext env) (\<lambda>client.
        eff_return (''Polymarket Wallet Address: '' @ address (pm_account client))))
       (\<lambda>error.
        eff_bind (await (messageOf error)) (\<lambda>message.
        eff_return (''Error initializing Polymarket wallet: '' @ toString message)))"

section \<open>Prompt templates\<close>

definition unlines :: "string list \<Rightarrow> string" where
  "unlines ls = concat (map (\<lambda>l. l @ [CHR 0x0A]) ls)"

definition templateHead :: "string list" where
  "templateHead =
     [[],
      ''# Action Examples'',
      ''{{actionExamples}}'',
      [],
      ''# Knowledge'',
      ''{{knowledge}}'',
      [],
      ''# Task: Generate dialog and actions for the character {{agentName}}.'',
      ''About {{agentName}}:'',
      ''{{bio}}'',
      ''{{lore}}'',
      [],
      ''{{providers}}'',
      [],
      ''{{attachments}}'',
      [],
      ''# Capabilities'',
      ''Note that {{agentName}} is capable of reading/seeing/hearing various forms of media, including images, videos, audio, plaintext and PDFs. Recent attachments have been included above under the ''
        @ [CHR 0x22] @ ''Attachments'' @ [CHR 0x22] @ '' section.'',
      []]"

definition templateTail :: "string list" where
  "templateTail =
     [[],
      ''{{actions}}'',
      [],
      ''Respond to the message knowing that the action was successful and these were the previous messages:'',
      ''{{recentMessages}}'']"

section \<open>The Zora actions\<close>

definition safeStringify :: "jsval \<Rightarrow> thrown + string option" where
  "safeStringify value = JSON_stringify True [] value"

definition plausible :: "string \<Rightarrow> bool" where
  "plausible provided =
     (startsWith provided ''ipfs://'' \<or> startsWith provided ''http://''
      \<or> startsWith provided ''https://'')"

definition pinRequest :: "string \<Rightarrow> string \<Rightarrow> request" where
  "pinRequest pinataJwt bodyText =
     \<lparr>rq_url = ''https://api.pinata.cloud/pinning/pinJSONToIPFS'',
      rq_method = ''POST'',
      rq_headers = [(''Content-Type'', ''application/json''),
                    (''Authorization'', ''Bearer '' @ pinataJwt)],
      rq_body = bodyText\<rparr>"

text \<open>
  \<open>ensureMetadataUri\<close>, in three parts: the request body it assembles (the metadata
  document and the pin's name), what it does with the response of the pin service, and the
  function itself.
\<close>

definition metadataBody :: "('st, 'msg) runtime \<Rightarrow> env \<Rightarrow> metadataParams \<Rightarrow> jsval" where
  "metadataBody runtime env params =
     (let defaultImageCid = env ''PINATA_DEFAULT_IMAGE_CID'';
          trimmedImage = map_option trim (m_image params);
          image = (if \<not> falsy trimmedImage then trimmedImage
                   else if \<not> falsy defaultImageCid
                     then Some (''ipfs://'' @ orEmpty defaultImageCid)
                   else None);
          trimmedDescription = map_option trim (m_description params);
          description = (if \<not> falsy trimmedDescription then orEmpty trimmedDescription
                         else ''Creator coin for '' @ m_name params);
          metadata = JObj ([(''name'', JStr (m_name params)),
                            (''description'', JStr description)]
                           @ (if \<not> falsy image then [(''image'', JStr (orEmpty image))]
                              else []))
      in JObj [(''pinataContent'', metadata),
               (''pinataMetadata'',
                  JObj [(''name'', JStr (''zora-coin-'' @ m_symbol params @ ''-''
                                         @ natToString (now runtime)))])])"

definition readPinResponse :: "response \<Rightarrow> string eff" where
  "readPinResponse response =
     eff_bind (if \<not> rs_ok response
               then let text = (case rs_text response of Inl e \<Rightarrow> [] | Inr t \<Rightarrow> t)
                    in eff_throw (JsError (''Pinata pinJSONToIPFS failed: ''
                         @ natToString (rs_status response) @ '' ''
                         @ rs_statusText response @ '' '' @ text))
               else eff_return ()) (\<lambda>u.
     eff_bind (await (rs_json response)) (\<lambda>json.
     eff_bind (await (getProp json ''IpfsHash'')) (\<lambda>ipfsHash.
     if \<not> truthy ipfsHash
     then eff_throw (JsError ''Pinata response missing IpfsHash'')
     else eff_return (''ipfs://'' @ toString ipfsHash))))"

definition ensureMetadataUri :: "('st, 'msg) runtime \<Rightarrow> env \<Rightarrow> metadataParams \<Rightarrow> string eff" where
  "ensureMetadataUri runtime env params =
     (let provided = map_option trim (m_uri params)
      in if \<not> falsy provided \<and> plausible (orEmpty provided)
         then eff_return (orEmpty provided)
         else
           let pinataJwt = env ''PINATA_JWT''
           in if falsy pinataJwt
              then eff_throw (JsError ''Missing PINATA_JWT. Cannot auto-generate metadata URI. Provide a valid uri or set PINATA_JWT to enable auto-pinning.'')
              else
                eff_bind (await (JSON_stringify False [] (metadataBody runtime env params)))
                  (\<lambda>bodyText.
                eff_bind (call (Fetch (pinRequest (orEmpty pinataJwt) (interpolate bodyText)))
                            (fetch runtime (pinRequest (orEmpty pinataJwt) (interpolate bodyText))))
                  (\<lambda>response.
                readPinResponse response)))"

definition composeParameterContext ::
  "('st, 'msg) runtime \<Rightarrow> string \<Rightarrow> 'st \<Rightarrow> string \<Rightarrow> string eff" where
  "composeParameterContext runtime actionName state description =
     await (composeContext runtime state (unlines
       [''{{recentMessages}}'',
        [],
        ''Given the recent messages, extract the following information for the action ''
          @ [CHR 0x22] @ actionName @ [CHR 0x22] @ '':'',
        description,
        [],
        ''Please provide the parameters in the correct format.'']))"

definition composeResponseContext ::
  "('st, 'msg) runtime \<Rightarrow> string \<Rightarrow> jsval \<Rightarrow> 'st \<Rightarrow> string eff" where
  "composeResponseContext runtime actionName result state =
     eff_bind (await (safeStringify result)) (\<lambda>serialized.
     await (composeContext runtime state (unlines
       (templateHead
        @ [''The Zora action '' @ [CHR 0x22] @ actionName @ [CHR 0x22]
             @ '' was executed successfully.'',
           ''Here is the result:'',
           interpolate serialized]
        @ templateTail))))"

definition generateResponse :: "('st, 'msg) runtime \<Rightarrow> string \<Rightarrow> string eff" where
  "generateResponse runtime context = await (generateText runtime context)"

text \<open>
  An action descriptor. \<open>validate\<close> takes nothing and resolves to \<open>true\<close>; the example
  dialogues are constant data and are left out. A handler is given the runtime, the
  environment it runs in, the message, the state if there is one, and the callback if there
  is one; it returns a boolean or throws. A callback is a function of the caller's: called
  with a payload it returns (the promise it returns is not awaited) or throws.
\<close>

type_synonym handlerCallback = "(payload \<Rightarrow> thrown + unit) option"

record ('st, 'msg) action =
  a_name :: string
  a_description :: string
  a_similes :: "string list"
  a_validate :: bool
  a_handler ::
    "('st, 'msg) runtime \<Rightarrow> env \<Rightarrow> 'msg \<Rightarrow> 'st option \<Rightarrow> handlerCallback \<Rightarrow> bool eff"

text \<open>
  \<open>callback?.(p)\<close>: when a callback was passed it is called, and the call returns or
  throws as the callback does; with no callback nothing is called.
\<close>

definition invoke :: "handlerCallback \<Rightarrow> payload \<Rightarrow> unit eff" where
  "invoke callback p =
     (case callback of None \<Rightarrow> eff_return () | Some f \<Rightarrow> call (Callback p) (f p))"

text \<open>The \<open>try\<close> block of the handler, and the handler with its \<open>catch\<close>.\<close>

definition createCoinSteps ::
  "externals \<Rightarrow> (env \<Rightarrow> zoraClients eff) \<Rightarrow> ('st, 'msg) runtime \<Rightarrow> env \<Rightarrow> 'msg \<Rightarrow> 'st option
     \<Rightarrow> handlerCallback \<Rightarrow> bool eff" where
  "createCoinSteps ext getClients runtime env message state callback =
     (eff_bind (getClients env) (\<lambda>clients.
        eff_bind (case state of Some s \<Rightarrow> eff_return s
                  | None \<Rightarrow> await (composeState runtime message)) (\<lambda>composed.
        eff_bind (await (updateRecentMessageState runtime composed)) (\<lambda>currentState.
        eff_bind (composeParameterContext runtime ''CREATE_COIN'' currentState
                    ''Extract coin creation parameters including name, symbol, metadata URI (optional), payout recipient address. Optionally include image and description for metadata.'')
          (\<lambda>parameterContext.
        eff_bind (await (generateObject_createCoin runtime parameterContext)) (\<lambda>parameters.
        eff_bind (ensureMetadataUri runtime env
                    \<lparr>m_name = p_name parameters, m_symbol = p_symbol parameters,
                     m_uri = p_uri parameters, m_image = p_image parameters,
                     m_description = p_description parameters\<rparr>) (\<lambda>resolvedUri.
        let coinParams =
              \<lparr>cp_name = p_name parameters, cp_symbol = p_symbol parameters,
               cp_uri = resolvedUri, cp_payoutRecipient = p_payoutRecipient parameters,
               cp_platformReferrer = (if falsy (p_platformReferrer parameters) then None
                                      else p_platformReferrer parameters),
               cp_currency = (if p_currency parameters = Some ZORA then ZORA else ETH)\<rparr>
        in
        eff_bind (call (CreateCoin coinParams (zc_walletClient clients) (zc_publicClient clients) 120)
                    (createCoin ext coinParams (zc_walletClient clients) (zc_publicClient clients) 120))
          (\<lambda>result.
        eff_bind (composeResponseContext runtime ''CREATE_COIN'' result currentState)
          (\<lambda>responseContext.
        eff_bind (generateResponse runtime responseContext) (\<lambda>response.
        eff_bind (if callback \<noteq> None
                  then eff_bind (await (getProp result ''hash'')) (\<lambda>hash.
                       eff_bind (await (getProp result ''address'')) (\<lambda>address.
                       eff_bind (await (getProp result ''deployment'')) (\<lambda>deployment.
                       invoke callback
                         \<lparr>cb_text = response,
                          cb_content = CoinContent hash address deployment\<rparr>)))
                  else eff_return ()) (\<lambda>u.
        eff_return True)))))))))))"

definition createCoinHandler ::
  "externals \<Rightarrow> (env \<Rightarrow> zoraClients eff) \<Rightarrow> ('st, 'msg) runtime \<Rightarrow> env \<Rightarrow> 'msg \<Rightarrow> 'st option
     \<Rightarrow> handlerCallback \<Rightarrow> bool eff" where
  "createCoinHandler ext getClients runtime env message state callback =
     try_catch
       (createCoinSteps ext getClients runtime env message state callback)
       (\<lambda>error.
        eff_bind (await (errorMessage error)) (\<lambda>errorMessage.
        eff_bind (invoke callback
                    \<lparr>cb_text = ''Error creating coin: '' @ errorMessage,
                     cb_content = ErrorContent errorMessage\<rparr>) (\<lambda>u.
        eff_return False)))"

definition createCoinAction :: "externals \<Rightarrow> (env \<Rightarrow> zoraClients eff) \<Rightarrow> ('st, 'msg) action" where
  "createCoinAction ext getClients =
     \<lparr>a_name = ''CREATE_COIN'',
      a_description = ''Create a new coin on Zora using the Zora Coins SDK. This action allows you to deploy a new creator coin with specified parameters including name, symbol, metadata URI, and payout recipient.'',
      a_similes = [''deploy coin'', ''create token'', ''mint coin'', ''launch coin''],
      a_validate = True,
      a_handler = createCoinHandler ext getClients\<rparr>"

text \<open>The \<open>try\<close> block of the handler, and the handler with its \<open>catch\<close>.\<close>

definition tradeCoinSteps ::
  "externals \<Rightarrow> (env \<Rightarrow> zoraClients eff) \<Rightarrow> ('st, 'msg) runtime \<Rightarrow> env \<Rightarrow> 'msg \<Rightarrow> 'st option
     \<Rightarrow> handlerCallback \<Rightarrow> bool eff" where
  "tradeCoinSteps ext getClients runtime env message state callback =
     (eff_bind (getClients env) (\<lambda>clients.
        eff_bind (case state of Some s \<Rightarrow> eff_return s
                  | None \<Rightarrow> await (composeState runtime message)) (\<lambda>composed.
        eff_bind (await (updateRecentMessageState runtime composed)) (\<lambda>currentState.
        eff_bind (composeParameterContext runtime ''TRADE_COIN'' currentState
                    ''Extract trade parameters including sell type (eth), buy type (erc20), coin address, amount in ETH, and slippage tolerance.'')
          (\<lambda>parameterContext.
        eff_bind (await (generateObject_tradeCoin runtime parameterContext)) (\<lambda>parameters.
        eff_bind (await (raising (parseEther ext (t_amountIn parameters)))) (\<lambda>amountIn.
        let tradeParameters =
              \<lparr>tp_sell = Eth, tp_buy = Erc20, tp_buy_address = t_coinAddress parameters,
               tp_amountIn = amountIn, tp_slippage = t_slippage parameters,
               tp_sender = address (zc_account clients)\<rparr>
        in
        eff_bind (call (TradeCoin tradeParameters (zc_walletClient clients) (zc_account clients)
                          (zc_publicClient clients))
                    (tradeCoin ext tradeParameters (zc_walletClient clients) (zc_account clients)
                       (zc_publicClient clients))) (\<lambda>result.
        eff_bind (composeResponseContext runtime ''TRADE_COIN'' result currentState)
          (\<lambda>responseContext.
        eff_bind (generateResponse runtime responseContext) (\<lambda>response.
        eff_bind (if callback \<noteq> None
                  then eff_bind (await (getProp result ''hash'')) (\<lambda>hash.
                       invoke callback
                         \<lparr>cb_text = response, cb_content = TradeContent hash result\<rparr>)
                  else eff_return ()) (\<lambda>u.
        eff_return True)))))))))))"

definition tradeCoinHandler ::
  "externals \<Rightarrow> (env \<Rightarrow> zoraClients eff) \<Rightarrow> ('st, 'msg) runtime \<Rightarrow> env \<Rightarrow> 'msg \<Rightarrow> 'st option
     \<Rightarrow> handlerCallback \<Rightarrow> bool eff" where
  "tradeCoinHandler ext getClients runtime env message state callback =
     try_catch
       (tradeCoinSteps ext getClients runtime env message state callback)
       (\<lambda>error.
        eff_bind (await (errorMessage error)) (\<lambda>errorMessage.
        eff_bind (invoke callback
                    \<lparr>cb_text = ''Error trading coin: '' @ errorMessage,
                     cb_content = ErrorContent errorMessage\<rparr>) (\<lambda>u.
        eff_return False)))"

definition tradeCoinAction :: "externals \<Rightarrow> (env \<Rightarrow> zoraClients eff) \<Rightarrow> ('st, 'msg) action" where
  "tradeCoinAction ext getClients =
     \<lparr>a_name = ''TRADE_COIN'',
      a_description = ''Trade coins on Zora using the Zora Coins SDK. This action allows you to buy or sell coins with specified amounts, slippage tolerance, and trade parameters.'',
      a_similes = [''buy coin'', ''sell coin'', ''swap coin'', ''trade token''],
      a_validate = True,
      a_handler = tradeCoinHandler ext getClients\<rparr>"

definition getZoraActions ::
  "externals \<Rightarrow> (env \<Rightarrow> zoraClients eff) \<Rightarrow> ('st, 'msg) action list eff" where
  "getZoraActions ext getClients =
     eff_return [createCoinAction ext getClients, tradeCoinAction ext getClients]"

text \<open>\<open>initializeActions\<close> of the Zora plugin, run once when the plugin is loaded.\<close>

definition initializeActions :: "externals \<Rightarrow> env \<Rightarrow> ('st, 'msg) action list eff" where
  "initializeActions ext env =
     try_catch
       (let rpcUrl = env ''ZORA_RPC_URL'';
            privateKey = env ''ZORA_PRIVATE_KEY''
        in if falsy rpcUrl \<or> falsy privateKey then eff_return []
           else eff_bind (getZoraActions ext (getZoraClients ext)) (\<lambda>actions.
                eff_return actions))
       (\<lambda>error. eff_return [])"

section \<open>The Polymarket action\<close>

text \<open>
  The predicate that \<open>tools.find\<close> is given. A tool with no name does not match:
  \<open>tool.name?.toLowerCase().includes(...)\<close> is \<open>undefined\<close> there.
\<close>

definition toolMatches :: "tool \<Rightarrow> bool" where
  "toolMatches t =
     ((case tool_name t of None \<Rightarrow> False
       | Some n \<Rightarrow> str_includes (toLowerCase n) ''event'')
      \<or> (case tool_name t of None \<Rightarrow> False
          | Some n \<Rightarrow> str_includes (toLowerCase n) ''market''))"

text \<open>
  \<open>generateResponse\<close> of the Polymarket plugin, which builds the prompt itself and
  serializes the result with \<open>JSON.stringify(result, null, 2)\<close>.
\<close>

definition generateResponse_polymarket ::
  "('st, 'msg) runtime \<Rightarrow> 'st \<Rightarrow> string \<Rightarrow> jsval \<Rightarrow> string \<Rightarrow> string eff" where
  "generateResponse_polymarket runtime state actionName result successMessage =
     eff_bind (await (JSON_stringify False ''  '' result)) (\<lambda>serialized.
     eff_bind (await (composeContext runtime state (unlines
       (templateHead
        @ [''The action '' @ [CHR 0x22] @ actionName @ [CHR 0x22]
             @ '' was executed successfully.'',
           successMessage,
           [],
           ''Here is the result:'',
           interpolate serialized]
        @ templateTail)))) (\<lambda>context.
     await (generateText runtime context)))"

definition handleError :: "thrown \<Rightarrow> string \<Rightarrow> handlerCallback \<Rightarrow> bool eff" where
  "handleError error actionName callback =
     eff_bind (await (errorMessage error)) (\<lambda>errorMessage.
     eff_bind (invoke callback
                 \<lparr>cb_text = ''Error executing '' @ actionName @ '': '' @ errorMessage,
                  cb_content = ErrorContent errorMessage\<rparr>) (\<lambda>u.
     eff_return False))"

text \<open>\<open>await eventTool.execute?.(params) || await eventTool.call?.(params)\<close>.\<close>

definition runTool :: "tool \<Rightarrow> jsval \<Rightarrow> jsval eff" where
  "runTool eventTool params =
     eff_bind (case tool_execute eventTool of
                 None \<Rightarrow> eff_return JUndefined
               | Some execute \<Rightarrow> call (ToolExecute (tool_name eventTool) params) (execute params))
       (\<lambda>executed.
     if truthy executed then eff_return executed
     else (case tool_call eventTool of
             None \<Rightarrow> eff_return JUndefined
           | Some called \<Rightarrow> call (ToolCall (tool_name eventTool) params) (called params)))"

definition eventsTemplate :: string where
  "eventsTemplate =
     unlines
       [''{{recentMessages}}'',
        [],
        ''Extract any specific event or market criteria from the recent messages. Look for:'',
        ''- Event names or keywords'',
        ''- Date ranges'',
        ''- Market categories'',
        ''- Active/inactive status'']
     @ ''If no specific criteria is mentioned, get general events.''"

text \<open>The \<open>try\<close> block of the handler, and the handler with its \<open>catch\<close>.\<close>

definition polymarketEventsSteps ::
  "externals \<Rightarrow> ('st, 'msg) runtime \<Rightarrow> env \<Rightarrow> 'msg \<Rightarrow> 'st option \<Rightarrow> handlerCallback
     \<Rightarrow> bool eff" where
  "polymarketEventsSteps ext runtime env message state callback =
     (eff_bind (getPolymarketClient ext env) (\<lambda>client.
        eff_bind (case state of Some s \<Rightarrow> eff_return s
                  | None \<Rightarrow> await (composeState runtime message)) (\<lambda>composed.
        eff_bind (await (updateRecentMessageState runtime composed)) (\<lambda>currentState.
        eff_bind (await (composeContext runtime currentState eventsTemplate)) (\<lambda>eventsContext.
        eff_bind (await (generateObject_events runtime eventsContext)) (\<lambda>params.
        eff_bind (case find toolMatches (pm_tools client) of
                    None \<Rightarrow> eff_throw (JsError ''Events tool not found'')
                  | Some eventTool \<Rightarrow> eff_return eventTool) (\<lambda>eventTool.
        eff_bind (runTool eventTool params) (\<lambda>result.
        eff_bind (generateResponse_polymarket runtime currentState ''GET_POLYMARKET_EVENTS'' result
                    ''Retrieved Polymarket events and markets successfully'') (\<lambda>responseText.
        eff_bind (invoke callback \<lparr>cb_text = responseText, cb_content = ToolContent result\<rparr>)
          (\<lambda>u.
        eff_return True))))))))))"

definition polymarketEventsHandler ::
  "externals \<Rightarrow> ('st, 'msg) runtime \<Rightarrow> env \<Rightarrow> 'msg \<Rightarrow> 'st option \<Rightarrow> handlerCallback
     \<Rightarrow> bool eff" where
  "polymarketEventsHandler ext runtime env message state callback =
     try_catch
       (polymarketEventsSteps ext runtime env message state callback)
       (\<lambda>error. handleError error ''GET_POLYMARKET_EVENTS'' callback)"

definition getPolymarketActions :: "externals \<Rightarrow> ('st, 'msg) action list eff" where
  "getPolymarketActions ext =
     eff_return
       [\<lparr>a_name = ''GET_POLYMARKET_EVENTS'',
         a_description = ''Get Polymarket events and markets'',
         a_similes = [''LIST_EVENTS'', ''SHOW_EVENTS'', ''VIEW_EVENTS'', ''GET_MARKETS''],
         a_validate = True,
         a_handler = polymarketEventsHandler ext\<rparr>]"

text \<open>\<open>initializeActions\<close> of the Polymarket plugin.\<close>

definition initializeActions_polymarket :: "externals \<Rightarrow> env \<Rightarrow> ('st, 'msg) action list eff" where
  "initializeActions_polymarket ext env =
     try_catch
       (let apiKey = env ''POLYMARKET_API_KEY'';
            apiSecret = env ''POLYMARKET_SECRET'';
            apiPassphrase = env ''POLYMARKET_PASSPHRASE'';
            walletPrivateKey = env ''WALLET_PRIVATE_KEY'';
            rpcProviderUrl = env ''RPC_PROVIDER_URL''
        in if falsy apiKey \<or> falsy apiSecret \<or> falsy apiPassphrase then eff_return []
           else if falsy walletPrivateKey \<or> falsy rpcProviderUrl then eff_return []
           else eff_bind (getPolymarketActions ext) (\<lambda>actions.
                eff_return actions))
       (\<lambda>error. eff_return [])"

section \<open>Example inputs\<close>

definition exampleTools :: "tool list" where
  "exampleTools =
     [\<lparr>tool_name = Some ''get_balance'', tool_execute = Some (\<lambda>params. Inr JNull),
       tool_call = None\<rparr>,
      \<lparr>tool_name = None, tool_execute = None, tool_call = None\<rparr>,
      \<lparr>tool_name = Some ''get_Polymarket_EVENTS'',
       tool_execute = Some (\<lambda>params. Inr (JObj [(''events'', JArr [])])),
       tool_call = None\<rparr>,
      \<lparr>tool_name = Some ''list_markets'', tool_execute = Some (\<lambda>params. Inr (JArr [])),
       tool_call = None\<rparr>]"

definition exampleExternals :: externals where
  "exampleExternals =
     \<lparr>privateKeyToAccount =
        (\<lambda>key. if key = ''0xbad'' then Inl ''invalid private key''
               else Inr \<lparr>address = ''0xA11CE''\<rparr>),
      parseEther = (\<lambda>amount. Inr 1000000000000000),
      getOnChainTools = (\<lambda>wallet key secret passphrase. Inr exampleTools),
      createCoin =
        (\<lambda>params wallet public gas.
           Inr (JObj [(''hash'', JStr ''0xh''), (''address'', JStr ''0xc''),
                      (''deployment'', JObj [(''supply'', JBigInt 1000000000000000000000)])])),
      tradeCoin =
        (\<lambda>params wallet account public. Inl (JsValue (JStr ''reverted'')))\<rparr>"

text \<open>
  The same collaborators with an SDK that settles the trade, and with one that rejects it
  with an object that has no prototype.
\<close>

definition settlingExternals :: externals where
  "settlingExternals =
     exampleExternals
       \<lparr>tradeCoin := (\<lambda>params wallet account public. Inr (JObj [(''hash'', JStr ''0xt'')]))\<rparr>"

definition opaqueExternals :: externals where
  "opaqueExternals =
     exampleExternals
       \<lparr>tradeCoin :=
          (\<lambda>params wallet account public.
             Inl (JsOpaque (JsError ''Cannot convert object to primitive value'')))\<rparr>"

text \<open>A callback that returns, and one that throws.\<close>

definition returningCallback :: "payload \<Rightarrow> thrown + unit" where
  "returningCallback p = Inr ()"

definition throwingCallback :: "payload \<Rightarrow> thrown + unit" where
  "throwingCallback p = Inl (JsError ''channel closed'')"

definition zoraEnv :: "string \<Rightarrow> string \<Rightarrow> env" where
  "zoraEnv chainName rpcUrl =
     map_of [(''ZORA_CHAIN'', chainName), (''ZORA_RPC_URL'', rpcUrl),
             (''ZORA_PRIVATE_KEY'', ''0xkey'')]"

definition polymarketEnv :: env where
  "polymarketEnv =
     map_of [(''POLYMARKET_API_KEY'', ''k''), (''POLYMARKET_SECRET'', ''s''),
             (''POLYMARKET_PASSPHRASE'', ''p''), (''WALLET_PRIVATE_KEY'', ''0xkey''),
             (''RPC_PROVIDER_URL'', ''https://polygon-rpc.com'')]"

definition exampleRuntime :: "(unit, unit) runtime" where
  "exampleRuntime =
     \<lparr>composeState = (\<lambda>message. Inr ()),
      updateRecentMessageState = (\<lambda>state. Inr state),
      composeContext = (\<lambda>state template. Inr template),
      generateObject_createCoin =
        (\<lambda>context.
           Inr \<lparr>p_name = ''Coin'', p_symbol = ''C'', p_uri = Some ''my coin picture'',
                 p_image = None, p_description = None, p_payoutRecipient = ''0xp'',
                 p_platformReferrer = None, p_currency = None\<rparr>),
      generateObject_tradeCoin =
        (\<lambda>context.
           Inr \<lparr>t_sellType = Eth, t_buyType = Erc20, t_coinAddress = ''0xc'',
                 t_amountIn = ''0.001'', t_slippage = ''0.05''\<rparr>),
      generateObject_events = (\<lambda>context. Inr (JObj [])),
      generateText = (\<lambda>context. Inr ''done''),
      fetch =
        (\<lambda>req. Inr \<lparr>rs_ok = True, rs_status = 200, rs_statusText = ''OK'', rs_text = Inr [],
                      rs_json = Inr (JObj [(''IpfsHash'', JStr ''Qm1'')])\<rparr>),
      now = 17\<rparr>"

section \<open>Notions of the specification\<close>

text \<open>The payloads the callback was invoked with, and the pin requests made, in order.\<close>

definition callbacks :: "event list \<Rightarrow> payload list" where
  "callbacks tr = concat (map (\<lambda>ev. case ev of Callback p \<Rightarrow> [p] | _ \<Rightarrow> []) tr)"

definition pinRequests :: "event list \<Rightarrow> request list" where
  "pinRequests tr = concat (map (\<lambda>ev. case ev of Fetch r \<Rightarrow> [r] | _ \<Rightarrow> []) tr)"

text \<open>
  In the specification's words, a name contains a word as a case-insensitive substring:
  some stretch of the name is the word, up to the case of its letters.
\<close>

definition containsIgnoringCase :: "string \<Rightarrow> string \<Rightarrow> bool" where
  "containsIgnoringCase s w =
     (\<exists>before stretch after. s = before @ stretch @ after \<and> toLowerCase stretch = toLowerCase w)"

text \<open>A value that has a BigInt somewhere in it.\<close>

fun containsBigInt :: "jsval \<Rightarrow> bool"
  and anyBigInt :: "jsval list \<Rightarrow> bool"
  and anyMemberBigInt :: "(string \<times> jsval) list \<Rightarrow> bool"
where
  "containsBigInt (JBigInt i) = True"
| "containsBigInt (JArr xs) = anyBigInt xs"
| "containsBigInt (JObj kvs) = anyMemberBigInt kvs"
| "containsBigInt JUndefined = False"
| "containsBigInt JNull = False"
| "containsBigInt (JBool b) = False"
| "containsBigInt (JNum r) = False"
| "containsBigInt (JStr s) = False"
| "anyBigInt [] = False"
| "anyBigInt (x # xs) = (containsBigInt x \<or> anyBigInt xs)"
| "anyMemberBigInt [] = False"
| "anyMemberBigInt ((k, v) # kvs) = (containsBigInt v \<or> anyMemberBigInt kvs)"

text \<open>The value with every BigInt in it replaced by the string of its decimal digits.\<close>

fun bigintsAsStrings :: "jsval \<Rightarrow> jsval"
  and elementsAsStrings :: "jsval list \<Rightarrow> jsval list"
  and membersAsStrings :: "(string \<times> jsval) list \<Rightarrow> (string \<times> jsval) list"
where
  "bigintsAsStrings (JBigInt i) = JStr (bigintToString i)"
| "bigintsAsStrings (JArr xs) = JArr (elementsAsStrings xs)"
| "bigintsAsStrings (JObj kvs) = JObj (membersAsStrings kvs)"
| "bigintsAsStrings JUndefined = JUndefined"
| "bigintsAsStrings JNull = JNull"
| "bigintsAsStrings (JBool b) = JBool b"
| "bigintsAsStrings (JNum r) = JNum r"
| "bigintsAsStrings (JStr s) = JStr s"
| "elementsAsStrings [] = []"
| "elementsAsStrings (x # xs) = bigintsAsStrings x # elementsAsStrings xs"
| "membersAsStrings [] = []"
| "membersAsStrings ((k, v) # kvs) = (k, bigintsAsStrings v) # membersAsStrings kvs"

definition pinataEnv :: env where
  "pinataEnv =
     map_of [(''ZORA_RPC_URL'', ''https://mainnet.base.org''), (''ZORA_PRIVATE_KEY'', ''0xkey''),
             (''PINATA_JWT'', ''jwt'')]"

definition exampleMetadata :: "string option \<Rightarrow> metadataParams" where
  "exampleMetadata uri =
     \<lparr>m_name = ''Coin'', m_symbol = ''C'', m_uri = uri, m_image = None, m_description = None\<rparr>"

text \<open>A callback that never throws, whatever it is called with (or no callback).\<close>

definition callbackReturns :: "handlerCallback \<Rightarrow> bool" where
  "callbackReturns callback = (case callback of None \<Rightarrow> True | Some f \<Rightarrow> (\<forall>p. f p = Inr ()))"

text \<open>
  In the specification's words, a handler contains the exceptions of its steps: when the
  steps return, the handler returns what they return; when they throw \<open>e\<close> and the catch
  block reads the message \<open>m\<close> of \<open>e\<close>, the handler returns false and the callback, if
  there is one, was invoked exactly once, with a non-empty text and the content
  \<open>{error: m}\<close>. The text is the handler's prefix followed by the message.
\<close>

definition containsExceptions :: "bool eff \<Rightarrow> bool eff \<Rightarrow> handlerCallback \<Rightarrow> string \<Rightarrow> bool" where
  "containsExceptions steps handler callback prefix =
     ((\<forall>t b. steps = (t, Inr b) \<longrightarrow> handler = (t, Inr b))
      \<and> (\<forall>t e m. steps = (t, Inl e) \<and> errorMessage e = Inr m \<longrightarrow>
            snd handler = Inr False
            \<and> callbacks (fst handler)
                = (case callback of
                     None \<Rightarrow> []
                   | Some f \<Rightarrow> [\<lparr>cb_text = prefix @ m, cb_content = ErrorContent m\<rparr>])
            \<and> prefix @ m \<noteq> []))"

text \<open>A computation that does not invoke the callback, and one that does not when it throws.\<close>

definition quiet :: "'a eff \<Rightarrow> bool" where
  "quiet m = (callbacks (fst m) = [])"

definition quietOnThrow :: "'a eff \<Rightarrow> bool" where
  "quietOnThrow m = (case snd m of Inl e \<Rightarrow> callbacks (fst m) = [] | Inr x \<Rightarrow> True)"

text \<open>Reading a decimal rendering back: the number its digits stand for.\<close>

definition decimalValue :: "string \<Rightarrow> nat" where
  "decimalValue s = foldl (\<lambda>a c. 10 * a + (of_char c - 48)) 0 s"

definition parseBigInt :: "string \<Rightarrow> int" where
  "parseBigInt s =
     (case s of
        [] \<Rightarrow> 0
      | c # ds \<Rightarrow> if c = CHR ''-'' then - int (decimalValue ds) else int (decimalValue s))"

section \<open>Computing with effects\<close>

lemma eff_bind_return: "eff_bind (eff_return x) f = f x"
  by (simp add: eff_bind_def eff_return_def split: prod.splits)

lemma eff_bind_throw: "eff_bind (eff_throw e) f = eff_throw e"
  by (simp add: eff_bind_def eff_throw_def)

lemma eff_bind_await_Inr: "eff_bind (await (Inr x)) f = f x"
  by (simp add: eff_bind_def await_def split: prod.splits)

lemma eff_bind_await_Inl: "eff_bind (await (Inl e)) f = ([], Inl e)"
  by (simp add: eff_bind_def await_def)

lemma eff_bind_call_Inr: "eff_bind (call ev (Inr x)) f = (ev # fst (f x), snd (f x))"
  by (simp add: eff_bind_def call_def split: prod.splits)

lemma eff_bind_call_Inl: "eff_bind (call ev (Inl e)) f = ([ev], Inl e)"
  by (simp add: eff_bind_def call_def)

lemma eff_bind_Inl: "eff_bind (t, Inl e) f = (t, Inl e)"
  by (simp add: eff_bind_def)

lemma eff_bind_Inr: "eff_bind (t, Inr x) f = (t @ fst (f x), snd (f x))"
  by (simp add: eff_bind_def split: prod.splits)

lemma try_catch_Inl: "try_catch (t, Inl e) h = (t @ fst (h e), snd (h e))"
  by (simp add: try_catch_def split: prod.splits)

lemma try_catch_Inr: "try_catch (t, Inr x) h = (t, Inr x)"
  by (simp add: try_catch_def)

lemmas eff_simps = eff_bind_return eff_bind_throw eff_bind_await_Inr eff_bind_await_Inl
  eff_bind_call_Inr eff_bind_call_Inl eff_bind_Inl eff_bind_Inr

section \<open>Client bootstrap: chain selection\<close>

lemma getZoraClients_chain:
  assumes "getZoraClients ext env = (tr, Inr c)"
  shows "wc_chain (zc_walletClient c) =
           (if toLowerCase (orEmpty (env ''ZORA_CHAIN'')) \<in> {''base-sepolia'', ''basesepolia'', ''sepolia''}
               \<or> str_includes (toLowerCase (orEmpty (env ''ZORA_RPC_URL''))) ''sepolia''
               \<or> str_includes (toLowerCase (orEmpty (env ''ZORA_RPC_URL''))) ''84532''
            then BaseSepolia else Base)
         \<and> pc_chain (zc_publicClient c) = wc_chain (zc_walletClient c)"
proof -
  from assms have ok: "\<not> (falsy (env ''ZORA_RPC_URL'') \<or> falsy (env ''ZORA_PRIVATE_KEY''))"
    by (auto simp: getZoraClients_def Let_def eff_throw_def)
  show ?thesis
  proof (cases "privateKeyToAccount ext (orEmpty (env ''ZORA_PRIVATE_KEY''))")
    case (Inl m)
    with assms ok show ?thesis
      by (simp add: getZoraClients_def Let_def raising_def eff_simps)
  next
    case (Inr a)
    with assms ok show ?thesis
      by (auto simp add: getZoraClients_def Let_def raising_def eff_simps createPublicClient_def
          createWalletClient_def eff_return_def)
  qed
qed

lemma getZoraClients_accepts:
  assumes "getZoraClients ext env = (tr, Inr c)"
  shows "\<exists>rpc. env ''ZORA_RPC_URL'' = Some rpc \<and> rpc \<noteq> []"
proof -
  from assms have "\<not> falsy (env ''ZORA_RPC_URL'')"
    by (auto simp: getZoraClients_def Let_def eff_throw_def)
  then show ?thesis
    by (cases "env ''ZORA_RPC_URL''") (simp_all add: falsy_def)
qed

text \<open>
  C4. Whenever the Zora bootstrap accepts the environment, the wallet client and the public
  client of the bundle are bound to Base Sepolia if the lowercased \<open>ZORA_CHAIN\<close> is
  \<open>base-sepolia\<close>, \<open>basesepolia\<close> or \<open>sepolia\<close>, or the lowercased \<open>ZORA_RPC_URL\<close>
  contains \<open>sepolia\<close> or \<open>84532\<close>; and to Base mainnet otherwise.
\<close>

theorem zora_chain_selection:
  assumes "getZoraClients ext env = (tr, Inr clients)"
      and "env ''ZORA_RPC_URL'' = Some rpcUrl"
  shows "wc_chain (zc_walletClient clients) =
           (if toLowerCase (orEmpty (env ''ZORA_CHAIN''))
                 \<in> {''base-sepolia'', ''basesepolia'', ''sepolia''}
               \<or> str_includes (toLowerCase rpcUrl) ''sepolia''
               \<or> str_includes (toLowerCase rpcUrl) ''84532''
            then BaseSepolia else Base)
         \<and> pc_chain (zc_publicClient clients) = wc_chain (zc_walletClient clients)"
  using getZoraClients_chain [OF assms(1)] assms(2) by (simp add: orEmpty_def)

theorem zora_chain_selection_witness:
  "getZoraClients exampleExternals (zoraEnv ''base-sepolia'' ''https://mainnet.base.org'')
     = ([PrivateKeyToAccount ''0xkey'',
         CreatePublicClient BaseSepolia ''https://mainnet.base.org'',
         CreateWalletClient \<lparr>address = ''0xA11CE''\<rparr> BaseSepolia ''https://mainnet.base.org''],
        Inr \<lparr>zc_publicClient =
               \<lparr>pc_chain = BaseSepolia, pc_transport = ''https://mainnet.base.org''\<rparr>,
             zc_walletClient =
               \<lparr>wc_account = \<lparr>address = ''0xA11CE''\<rparr>, wc_chain = BaseSepolia,
                wc_transport = ''https://mainnet.base.org''\<rparr>,
             zc_account = \<lparr>address = ''0xA11CE''\<rparr>\<rparr>)
   \<and> zoraEnv ''base-sepolia'' ''https://mainnet.base.org'' ''ZORA_RPC_URL''
       = Some ''https://mainnet.base.org''
   \<and> (if toLowerCase (orEmpty (zoraEnv ''base-sepolia'' ''https://mainnet.base.org'' ''ZORA_CHAIN''))
            \<in> {''base-sepolia'', ''basesepolia'', ''sepolia''}
          \<or> str_includes (toLowerCase ''https://mainnet.base.org'') ''sepolia''
          \<or> str_includes (toLowerCase ''https://mainnet.base.org'') ''84532''
       then BaseSepolia else Base) = BaseSepolia"
proof -
  let ?env = "zoraEnv ''base-sepolia'' ''https://mainnet.base.org''"
  let ?clients =
    "\<lparr>zc_publicClient = \<lparr>pc_chain = BaseSepolia, pc_transport = ''https://mainnet.base.org''\<rparr>,
      zc_walletClient = \<lparr>wc_account = \<lparr>address = ''0xA11CE''\<rparr>, wc_chain = BaseSepolia,
                         wc_transport = ''https://mainnet.base.org''\<rparr>,
      zc_account = \<lparr>address = ''0xA11CE''\<rparr>\<rparr>"
  have run: "getZoraClients exampleExternals ?env
     = ([PrivateKeyToAccount ''0xkey'',
         CreatePublicClient BaseSepolia ''https://mainnet.base.org'',
         CreateWalletClient \<lparr>address = ''0xA11CE''\<rparr> BaseSepolia ''https://mainnet.base.org''],
        Inr ?clients)"
    by code_simp
  have url: "?env ''ZORA_RPC_URL'' = Some ''https://mainnet.base.org''"
    by code_simp
  from zora_chain_selection [OF run url] run url show ?thesis
    by simp
qed

text \<open>
  C9. A lowercased \<open>ZORA_RPC_URL\<close> that contains \<open>sepolia\<close> or \<open>84532\<close> decides for
  Base Sepolia whatever \<open>ZORA_CHAIN\<close> is set to (here: set to any value \<open>z\<close>, or unset):
  the two tests are joined by \<open>||\<close>, so no value of \<open>ZORA_CHAIN\<close> selects mainnet over
  such a URL.
\<close>

theorem zora_rpc_hint_beats_chain_override:
  assumes "getZoraClients ext (env(''ZORA_CHAIN'' := z)) = (tr, Inr clients)"
      and "env ''ZORA_RPC_URL'' = Some rpcUrl"
      and "str_includes (toLowerCase rpcUrl) ''sepolia'' \<or> str_includes (toLowerCase rpcUrl) ''84532''"
  shows "wc_chain (zc_walletClient clients) = BaseSepolia
         \<and> pc_chain (zc_publicClient clients) = BaseSepolia"
proof -
  have "(env(''ZORA_CHAIN'' := z)) ''ZORA_RPC_URL'' = Some rpcUrl"
    using assms(2) by simp
  then have "orEmpty ((env(''ZORA_CHAIN'' := z)) ''ZORA_RPC_URL'') = rpcUrl"
    by (simp add: orEmpty_def)
  with getZoraClients_chain [OF assms(1)] assms(3) show ?thesis
    by auto
qed

theorem zora_rpc_hint_beats_chain_override_witness:
  "getZoraClients exampleExternals
     ((zoraEnv ''base'' ''https://rpc.example/84532'')(''ZORA_CHAIN'' := Some ''base-mainnet''))
     = ([PrivateKeyToAccount ''0xkey'',
         CreatePublicClient BaseSepolia ''https://rpc.example/84532'',
         CreateWalletClient \<lparr>address = ''0xA11CE''\<rparr> BaseSepolia ''https://rpc.example/84532''],
        Inr \<lparr>zc_publicClient =
               \<lparr>pc_chain = BaseSepolia, pc_transport = ''https://rpc.example/84532''\<rparr>,
             zc_walletClient =
               \<lparr>wc_account = \<lparr>address = ''0xA11CE''\<rparr>, wc_chain = BaseSepolia,
                wc_transport = ''https://rpc.example/84532''\<rparr>,
             zc_account = \<lparr>address = ''0xA11CE''\<rparr>\<rparr>)
   \<and> str_includes (toLowerCase ''https://rpc.example/84532'') ''84532''"
proof -
  let ?env = "zoraEnv ''base'' ''https://rpc.example/84532''"
  let ?clients =
    "\<lparr>zc_publicClient = \<lparr>pc_chain = BaseSepolia, pc_transport = ''https://rpc.example/84532''\<rparr>,
      zc_walletClient = \<lparr>wc_account = \<lparr>address = ''0xA11CE''\<rparr>, wc_chain = BaseSepolia,
                         wc_transport = ''https://rpc.example/84532''\<rparr>,
      zc_account = \<lparr>address = ''0xA11CE''\<rparr>\<rparr>"
  have run: "getZoraClients exampleExternals (?env(''ZORA_CHAIN'' := Some ''base-mainnet''))
     = ([PrivateKeyToAccount ''0xkey'',
         CreatePublicClient BaseSepolia ''https://rpc.example/84532'',
         CreateWalletClient \<lparr>address = ''0xA11CE''\<rparr> BaseSepolia ''https://rpc.example/84532''],
        Inr ?clients)"
    by code_simp
  have url: "?env ''ZORA_RPC_URL'' = Some ''https://rpc.example/84532''"
    by code_simp
  have hint: "str_includes (toLowerCase ''https://rpc.example/84532'') ''sepolia''
              \<or> str_includes (toLowerCase ''https://rpc.example/84532'') ''84532''"
    by code_simp
  have inc: "str_includes (toLowerCase ''https://rpc.example/84532'') ''84532''"
    by code_simp
  from zora_rpc_hint_beats_chain_override [OF run url hint] run inc show ?thesis
    by simp
qed

section \<open>Client bootstrap: missing credentials\<close>

lemma api_message_names:
  "list_all (str_includes ''Missing required Polymarket API credentials. Please set POLYMARKET_API_KEY, POLYMARKET_SECRET, and POLYMARKET_PASSPHRASE environment variables.'')
     [''POLYMARKET_API_KEY'', ''POLYMARKET_SECRET'', ''POLYMARKET_PASSPHRASE'']"
  "\<not> list_ex (str_includes ''Missing required Polymarket API credentials. Please set POLYMARKET_API_KEY, POLYMARKET_SECRET, and POLYMARKET_PASSPHRASE environment variables.'')
     [''WALLET_PRIVATE_KEY'', ''RPC_PROVIDER_URL'']"
  by code_simp+

lemma wallet_message_names:
  "list_all (str_includes ''Missing required wallet configuration. Please set WALLET_PRIVATE_KEY and RPC_PROVIDER_URL environment variables.'')
     [''WALLET_PRIVATE_KEY'', ''RPC_PROVIDER_URL'']"
  "\<not> list_ex (str_includes ''Missing required wallet configuration. Please set WALLET_PRIVATE_KEY and RPC_PROVIDER_URL environment variables.'')
     [''POLYMARKET_API_KEY'', ''POLYMARKET_SECRET'', ''POLYMARKET_PASSPHRASE'']"
  by code_simp+

lemma zora_message_names:
  "list_all (str_includes ''Missing required Zora credentials. Please set ZORA_RPC_URL and ZORA_PRIVATE_KEY environment variables.'')
     [''ZORA_RPC_URL'', ''ZORA_PRIVATE_KEY'']"
  by code_simp

text \<open>
  C3. A missing (unset or empty) required credential makes the bootstrap throw before it
  constructs anything: no call is made. For Polymarket the three API credentials are tested
  first, and the message then names all three of them and neither wallet variable; with the
  API credentials present, a missing wallet variable gives a message that names both wallet
  variables and no API credential. For Zora the message names both required variables.
\<close>

theorem bootstrap_missing_credentials:
  "(falsy (env ''POLYMARKET_API_KEY'') \<or> falsy (env ''POLYMARKET_SECRET'')
      \<or> falsy (env ''POLYMARKET_PASSPHRASE'') \<longrightarrow>
      (\<exists>m. getPolymarketClient ext env = ([], Inl (JsError m))
         \<and> list_all (str_includes m)
              [''POLYMARKET_API_KEY'', ''POLYMARKET_SECRET'', ''POLYMARKET_PASSPHRASE'']
         \<and> \<not> list_ex (str_includes m) [''WALLET_PRIVATE_KEY'', ''RPC_PROVIDER_URL'']))
   \<and> (\<not> (falsy (env ''POLYMARKET_API_KEY'') \<or> falsy (env ''POLYMARKET_SECRET'')
          \<or> falsy (env ''POLYMARKET_PASSPHRASE''))
       \<and> (falsy (env ''WALLET_PRIVATE_KEY'') \<or> falsy (env ''RPC_PROVIDER_URL'')) \<longrightarrow>
      (\<exists>m. getPolymarketClient ext env = ([], Inl (JsError m))
         \<and> list_all (str_includes m) [''WALLET_PRIVATE_KEY'', ''RPC_PROVIDER_URL'']
         \<and> \<not> list_ex (str_includes m)
              [''POLYMARKET_API_KEY'', ''POLYMARKET_SECRET'', ''POLYMARKET_PASSPHRASE'']))
   \<and> (falsy (env ''ZORA_RPC_URL'') \<or> falsy (env ''ZORA_PRIVATE_KEY'') \<longrightarrow>
      (\<exists>m. getZoraClients ext env = ([], Inl (JsError m))
         \<and> list_all (str_includes m) [''ZORA_RPC_URL'', ''ZORA_PRIVATE_KEY'']))"
proof (intro conjI impI)
  assume "falsy (env ''POLYMARKET_API_KEY'') \<or> falsy (env ''POLYMARKET_SECRET'')
          \<or> falsy (env ''POLYMARKET_PASSPHRASE'')"
  then have "getPolymarketClient ext env = ([], Inl (JsError ''Missing required Polymarket API credentials. Please set POLYMARKET_API_KEY, POLYMARKET_SECRET, and POLYMARKET_PASSPHRASE environment variables.''))"
    by (simp add: getPolymarketClient_def Let_def eff_throw_def)
  with api_message_names
  show "\<exists>m. getPolymarketClient ext env = ([], Inl (JsError m))
         \<and> list_all (str_includes m)
              [''POLYMARKET_API_KEY'', ''POLYMARKET_SECRET'', ''POLYMARKET_PASSPHRASE'']
         \<and> \<not> list_ex (str_includes m) [''WALLET_PRIVATE_KEY'', ''RPC_PROVIDER_URL'']"
    by blast
next
  assume "\<not> (falsy (env ''POLYMARKET_API_KEY'') \<or> falsy (env ''POLYMARKET_SECRET'')
             \<or> falsy (env ''POLYMARKET_PASSPHRASE''))
          \<and> (falsy (env ''WALLET_PRIVATE_KEY'') \<or> falsy (env ''RPC_PROVIDER_URL''))"
  then have "getPolymarketClient ext env = ([], Inl (JsError ''Missing required wallet configuration. Please set WALLET_PRIVATE_KEY and RPC_PROVIDER_URL environment variables.''))"
    by (simp add: getPolymarketClient_def Let_def eff_throw_def)
  with wallet_message_names
  show "\<exists>m. getPolymarketClient ext env = ([], Inl (JsError m))
         \<and> list_all (str_includes m) [''WALLET_PRIVATE_KEY'', ''RPC_PROVIDER_URL'']
         \<and> \<not> list_ex (str_includes m)
              [''POLYMARKET_API_KEY'', ''POLYMARKET_SECRET'', ''POLYMARKET_PASSPHRASE'']"
    by blast
next
  assume "falsy (env ''ZORA_RPC_URL'') \<or> falsy (env ''ZORA_PRIVATE_KEY'')"
  then have "getZoraClients ext env = ([], Inl (JsError ''Missing required Zora credentials. Please set ZORA_RPC_URL and ZORA_PRIVATE_KEY environment variables.''))"
    by (simp add: getZoraClients_def Let_def eff_throw_def)
  with zora_message_names
  show "\<exists>m. getZoraClients ext env = ([], Inl (JsError m))
         \<and> list_all (str_includes m) [''ZORA_RPC_URL'', ''ZORA_PRIVATE_KEY'']"
    by blast
qed

text \<open>
  An environment with the Polymarket API credentials and an empty \<open>RPC_PROVIDER_URL\<close>,
  and no Zora variable at all.
\<close>

theorem bootstrap_missing_credentials_witness:
  "getPolymarketClient exampleExternals (polymarketEnv(''RPC_PROVIDER_URL'' := Some []))
     = ([], Inl (JsError ''Missing required wallet configuration. Please set WALLET_PRIVATE_KEY and RPC_PROVIDER_URL environment variables.''))
   \<and> getPolymarketClient exampleExternals (polymarketEnv(''POLYMARKET_SECRET'' := None, ''WALLET_PRIVATE_KEY'' := None))
     = ([], Inl (JsError ''Missing required Polymarket API credentials. Please set POLYMARKET_API_KEY, POLYMARKET_SECRET, and POLYMARKET_PASSPHRASE environment variables.''))
   \<and> (\<exists>m. getZoraClients exampleExternals (polymarketEnv(''RPC_PROVIDER_URL'' := Some []))
              = ([], Inl (JsError m))
          \<and> list_all (str_includes m) [''ZORA_RPC_URL'', ''ZORA_PRIVATE_KEY''])"
proof -
  let ?env = "polymarketEnv(''RPC_PROVIDER_URL'' := Some [])"
  have present: "\<not> (falsy (?env ''POLYMARKET_API_KEY'') \<or> falsy (?env ''POLYMARKET_SECRET'')
                     \<or> falsy (?env ''POLYMARKET_PASSPHRASE''))"
    by code_simp
  have wallet: "falsy (?env ''WALLET_PRIVATE_KEY'') \<or> falsy (?env ''RPC_PROVIDER_URL'')"
    by code_simp
  have zora: "falsy (?env ''ZORA_RPC_URL'') \<or> falsy (?env ''ZORA_PRIVATE_KEY'')"
    by code_simp
  have first: "getPolymarketClient exampleExternals ?env
     = ([], Inl (JsError ''Missing required wallet configuration. Please set WALLET_PRIVATE_KEY and RPC_PROVIDER_URL environment variables.''))"
    by (simp add: getPolymarketClient_def polymarketEnv_def falsy_def eff_throw_def)
  have second: "getPolymarketClient exampleExternals (polymarketEnv(''POLYMARKET_SECRET'' := None, ''WALLET_PRIVATE_KEY'' := None))
     = ([], Inl (JsError ''Missing required Polymarket API credentials. Please set POLYMARKET_API_KEY, POLYMARKET_SECRET, and POLYMARKET_PASSPHRASE environment variables.''))"
    by (simp add: getPolymarketClient_def polymarketEnv_def falsy_def eff_throw_def)
  from bootstrap_missing_credentials [of ?env exampleExternals] present wallet zora first second
  show ?thesis
    by blast
qed

section \<open>The providers\<close>

lemma getZoraClients_throws_Error:
  assumes "getZoraClients ext env = (tr, Inl e)"
  shows "\<exists>m. e = JsError m"
proof (cases "falsy (env ''ZORA_RPC_URL'') \<or> falsy (env ''ZORA_PRIVATE_KEY'')")
  case True
  with assms show ?thesis
    by (auto simp: getZoraClients_def Let_def eff_throw_def)
next
  case False
  show ?thesis
  proof (cases "privateKeyToAccount ext (orEmpty (env ''ZORA_PRIVATE_KEY''))")
    case (Inl m)
    with assms False show ?thesis
      by (auto simp: getZoraClients_def Let_def raising_def eff_simps)
  next
    case (Inr a)
    with assms False show ?thesis
      by (auto simp: getZoraClients_def Let_def raising_def eff_simps createPublicClient_def
          createWalletClient_def eff_return_def)
  qed
qed

lemma rethrow_Error:
  "\<exists>t m. eff_bind (await (messageOf error)) (\<lambda>message. eff_throw (JsError (f message)))
           = (t, Inl (JsError m))"
proof (cases error)
  case (JsError m)
  then show ?thesis
    by (simp add: messageOf_def eff_simps eff_throw_def)
next
  case (JsValue v)
  then show ?thesis
    by (cases v) (simp_all add: messageOf_def eff_simps eff_throw_def)
next
  case (JsOpaque x)
  then show ?thesis
    by (simp add: messageOf_def eff_simps eff_throw_def)
qed

lemma try_catch_rethrow:
  assumes "try_catch body h = (tr, Inl e)"
      and "\<And>e0. \<exists>t m. h e0 = (t, Inl (JsError m))"
  shows "\<exists>m. e = JsError m"
proof -
  obtain t r where body: "body = (t, r)"
    by (cases body)
  show ?thesis
  proof (cases r)
    case (Inr x)
    with assms(1) body show ?thesis
      by (simp add: try_catch_def)
  next
    case (Inl e0)
    from assms(2) obtain t' m where "h e0 = (t', Inl (JsError m))"
      by blast
    with assms(1) body Inl show ?thesis
      by (auto simp: try_catch_def)
  qed
qed

lemma getPolymarketClient_throws_Error:
  assumes "getPolymarketClient ext env = (tr, Inl e)"
  shows "\<exists>m. e = JsError m"
proof -
  consider (api) "falsy (env ''POLYMARKET_API_KEY'') \<or> falsy (env ''POLYMARKET_SECRET'')
                  \<or> falsy (env ''POLYMARKET_PASSPHRASE'')"
    | (wallet) "\<not> (falsy (env ''POLYMARKET_API_KEY'') \<or> falsy (env ''POLYMARKET_SECRET'')
                  \<or> falsy (env ''POLYMARKET_PASSPHRASE''))"
               "falsy (env ''WALLET_PRIVATE_KEY'') \<or> falsy (env ''RPC_PROVIDER_URL'')"
    | (build) "\<not> (falsy (env ''POLYMARKET_API_KEY'') \<or> falsy (env ''POLYMARKET_SECRET'')
                  \<or> falsy (env ''POLYMARKET_PASSPHRASE''))"
               "\<not> (falsy (env ''WALLET_PRIVATE_KEY'') \<or> falsy (env ''RPC_PROVIDER_URL''))"
    by blast
  then show ?thesis
  proof cases
    case api
    with assms show ?thesis
      by (auto simp: getPolymarketClient_def Let_def eff_throw_def)
  next
    case wallet
    with assms show ?thesis
      by (auto simp: getPolymarketClient_def Let_def eff_throw_def)
  next
    case build
    with assms show ?thesis
      unfolding getPolymarketClient_def Let_def
      by (simp only: if_False) (erule try_catch_rethrow, rule rethrow_Error)
  qed
qed

lemma provider_catch:
  "try_catch (t, Inl (JsError m))
     (\<lambda>error. eff_bind (await (messageOf error)) (\<lambda>message. eff_return (g message)))
   = (t, Inr (g (JStr m)))"
  by (simp add: try_catch_def messageOf_def eff_simps eff_return_def)

text \<open>
  C6. Whatever the environment holds, whatever account or \<open>Error\<close> viem's
  \<open>privateKeyToAccount\<close> gives, and whatever the tool discovery returns or throws, the
  \<open>get\<close> of either provider is fulfilled with a string: the wallet address line when the
  bootstrap returned a bundle, and the error line with the bootstrap's message when it threw;
  what the bootstrap throws is an \<open>Error\<close>.
\<close>

theorem provider_get_never_throws:
  "(\<exists>tr s. zoraProvider_get ext env = (tr, Inr s)
      \<and> (case snd (getZoraClients ext env) of
            Inr clients \<Rightarrow> s = ''Zora Wallet Address: '' @ address (zc_account clients)
          | Inl e \<Rightarrow> (\<exists>m. e = JsError m \<and> s = ''Error initializing Zora wallet: '' @ m)))
   \<and> (\<exists>tr s. walletProvider_get ext env = (tr, Inr s)
      \<and> (case snd (getPolymarketClient ext env) of
            Inr client \<Rightarrow> s = ''Polymarket Wallet Address: '' @ address (pm_account client)
          | Inl e \<Rightarrow> (\<exists>m. e = JsError m \<and> s = ''Error initializing Polymarket wallet: '' @ m)))"
proof
  obtain t r where z: "getZoraClients ext env = (t, r)"
    by (cases "getZoraClients ext env")
  show "\<exists>tr s. zoraProvider_get ext env = (tr, Inr s)
      \<and> (case snd (getZoraClients ext env) of
            Inr clients \<Rightarrow> s = ''Zora Wallet Address: '' @ address (zc_account clients)
          | Inl e \<Rightarrow> (\<exists>m. e = JsError m \<and> s = ''Error initializing Zora wallet: '' @ m))"
  proof (cases r)
    case (Inr clients)
    with z show ?thesis
      by (simp add: zoraProvider_get_def eff_bind_Inr try_catch_Inr eff_return_def)
  next
    case (Inl e)
    with z getZoraClients_throws_Error obtain m where "e = JsError m"
      by blast
    with z Inl show ?thesis
      by (simp add: zoraProvider_get_def eff_bind_Inl provider_catch)
  qed
next
  obtain t r where p: "getPolymarketClient ext env = (t, r)"
    by (cases "getPolymarketClient ext env")
  show "\<exists>tr s. walletProvider_get ext env = (tr, Inr s)
      \<and> (case snd (getPolymarketClient ext env) of
            Inr client \<Rightarrow> s = ''Polymarket Wallet Address: '' @ address (pm_account client)
          | Inl e \<Rightarrow> (\<exists>m. e = JsError m \<and> s = ''Error initializing Polymarket wallet: '' @ m))"
  proof (cases r)
    case (Inr client)
    with p show ?thesis
      by (simp add: walletProvider_get_def eff_bind_Inr try_catch_Inr eff_return_def)
  next
    case (Inl e)
    with p getPolymarketClient_throws_Error obtain m where "e = JsError m"
      by blast
    with p Inl show ?thesis
      by (simp add: walletProvider_get_def eff_bind_Inl provider_catch)
  qed
qed

theorem provider_get_never_throws_witness:
  "zoraProvider_get exampleExternals (zoraEnv ''base'' ''https://mainnet.base.org'')
     = ([PrivateKeyToAccount ''0xkey'',
         CreatePublicClient Base ''https://mainnet.base.org'',
         CreateWalletClient \<lparr>address = ''0xA11CE''\<rparr> Base ''https://mainnet.base.org''],
        Inr ''Zora Wallet Address: 0xA11CE'')
   \<and> walletProvider_get exampleExternals (polymarketEnv(''WALLET_PRIVATE_KEY'' := Some ''0xbad''))
     = ([PrivateKeyToAccount ''0xbad''],
        Inr ''Error initializing Polymarket wallet: Failed to initialize Polymarket client: invalid private key'')"
proof -
  have zora: "zoraProvider_get exampleExternals (zoraEnv ''base'' ''https://mainnet.base.org'')
     = ([PrivateKeyToAccount ''0xkey'',
         CreatePublicClient Base ''https://mainnet.base.org'',
         CreateWalletClient \<lparr>address = ''0xA11CE''\<rparr> Base ''https://mainnet.base.org''],
        Inr ''Zora Wallet Address: 0xA11CE'')"
    by code_simp
  have poly: "walletProvider_get exampleExternals (polymarketEnv(''WALLET_PRIVATE_KEY'' := Some ''0xbad''))
     = ([PrivateKeyToAccount ''0xbad''],
        Inr ''Error initializing Polymarket wallet: Failed to initialize Polymarket client: invalid private key'')"
    by code_simp
  from provider_get_never_throws [of exampleExternals "zoraEnv ''base'' ''https://mainnet.base.org''"]
    zora poly
  show ?thesis
    by simp
qed

section \<open>Plugin load\<close>

text \<open>
  C7. Loading either plugin never throws. With a required variable unset or empty the action
  list is empty; with all of them present it is the fixed list of the plugin: \<open>CREATE_COIN\<close>
  and \<open>TRADE_COIN\<close> for Zora (required: \<open>ZORA_RPC_URL\<close>, \<open>ZORA_PRIVATE_KEY\<close>),
  \<open>GET_POLYMARKET_EVENTS\<close> for Polymarket (required: the three API credentials and the
  two wallet variables).
\<close>

theorem initializeActions_never_fails:
  "(\<exists>actions. initializeActions ext env = ([], Inr actions)
      \<and> (if falsy (env ''ZORA_RPC_URL'') \<or> falsy (env ''ZORA_PRIVATE_KEY'')
         then actions = []
         else getZoraActions ext (getZoraClients ext) = ([], Inr actions)
              \<and> map a_name actions = [''CREATE_COIN'', ''TRADE_COIN'']))
   \<and> (\<exists>actions. initializeActions_polymarket ext env = ([], Inr actions)
      \<and> (if falsy (env ''POLYMARKET_API_KEY'') \<or> falsy (env ''POLYMARKET_SECRET'')
            \<or> falsy (env ''POLYMARKET_PASSPHRASE'')
            \<or> falsy (env ''WALLET_PRIVATE_KEY'') \<or> falsy (env ''RPC_PROVIDER_URL'')
         then actions = []
         else getPolymarketActions ext = ([], Inr actions)
              \<and> map a_name actions = [''GET_POLYMARKET_EVENTS'']))"
proof
  show "\<exists>actions. initializeActions ext env = ([], Inr actions)
      \<and> (if falsy (env ''ZORA_RPC_URL'') \<or> falsy (env ''ZORA_PRIVATE_KEY'')
         then actions = []
         else getZoraActions ext (getZoraClients ext) = ([], Inr actions)
              \<and> map a_name actions = [''CREATE_COIN'', ''TRADE_COIN''])"
    by (simp add: initializeActions_def getZoraActions_def Let_def eff_bind_Inr try_catch_def
        eff_return_def createCoinAction_def tradeCoinAction_def)
next
  show "\<exists>actions. initializeActions_polymarket ext env = ([], Inr actions)
      \<and> (if falsy (env ''POLYMARKET_API_KEY'') \<or> falsy (env ''POLYMARKET_SECRET'')
            \<or> falsy (env ''POLYMARKET_PASSPHRASE'')
            \<or> falsy (env ''WALLET_PRIVATE_KEY'') \<or> falsy (env ''RPC_PROVIDER_URL'')
         then actions = []
         else getPolymarketActions ext = ([], Inr actions)
              \<and> map a_name actions = [''GET_POLYMARKET_EVENTS''])"
    by (simp add: initializeActions_polymarket_def getPolymarketActions_def Let_def eff_bind_Inr
        try_catch_def eff_return_def)
qed

theorem initializeActions_never_fails_witness:
  "(initializeActions exampleExternals polymarketEnv :: (unit, unit) action list eff) = ([], Inr [])
   \<and> (\<exists>actions. (initializeActions_polymarket exampleExternals polymarketEnv
                   :: (unit, unit) action list eff) = ([], Inr actions)
          \<and> map a_name actions = [''GET_POLYMARKET_EVENTS''])"
proof -
  have zora: "falsy (polymarketEnv ''ZORA_RPC_URL'') \<or> falsy (polymarketEnv ''ZORA_PRIVATE_KEY'')"
    by code_simp
  have poly: "\<not> (falsy (polymarketEnv ''POLYMARKET_API_KEY'') \<or> falsy (polymarketEnv ''POLYMARKET_SECRET'')
            \<or> falsy (polymarketEnv ''POLYMARKET_PASSPHRASE'')
            \<or> falsy (polymarketEnv ''WALLET_PRIVATE_KEY'') \<or> falsy (polymarketEnv ''RPC_PROVIDER_URL''))"
    by code_simp
  from initializeActions_never_fails [of exampleExternals polymarketEnv, where ?'a = unit and ?'b = unit]
    zora poly
  show ?thesis
    by auto
qed

section \<open>The Polymarket handler: choosing the tool\<close>

lemma str_includes_iff: "str_includes s p \<longleftrightarrow> (\<exists>xs zs. s = xs @ p @ zs)"
proof (induction s)
  case Nil
  then show ?case by auto
next
  case (Cons c cs)
  show ?case
  proof
    assume "str_includes (c # cs) p"
    then consider "startsWith (c # cs) p" | "str_includes cs p"
      by auto
    then show "\<exists>xs zs. c # cs = xs @ p @ zs"
    proof cases
      case 1
      then have "c # cs = [] @ p @ drop (length p) (c # cs)"
        by (metis append_Nil append_take_drop_id startsWith_def)
      then show ?thesis by blast
    next
      case 2
      with Cons.IH obtain xs zs where "cs = xs @ p @ zs"
        by blast
      then have "c # cs = (c # xs) @ p @ zs"
        by simp
      then show ?thesis by blast
    qed
  next
    assume "\<exists>xs zs. c # cs = xs @ p @ zs"
    then obtain xs zs where eq: "c # cs = xs @ p @ zs"
      by blast
    show "str_includes (c # cs) p"
    proof (cases xs)
      case Nil
      with eq have "startsWith (c # cs) p"
        by (simp add: startsWith_def)
      then show ?thesis by simp
    next
      case (Cons x xs')
      with eq have "cs = xs' @ p @ zs"
        by simp
      with Cons.IH have "str_includes cs p"
        by blast
      then show ?thesis by simp
    qed
  qed
qed

lemma includes_lowered:
  "str_includes (toLowerCase s) (toLowerCase w) \<longleftrightarrow> containsIgnoringCase s w"
proof
  assume "str_includes (toLowerCase s) (toLowerCase w)"
  then obtain xs zs where "toLowerCase s = xs @ toLowerCase w @ zs"
    using str_includes_iff by blast
  then have "map lowerChar s = xs @ (map lowerChar w @ zs)"
    by (simp add: toLowerCase_def)
  then have "take (length w) (drop (length xs) (map lowerChar s)) = map lowerChar w"
    by simp
  then have "toLowerCase (take (length w) (drop (length xs) s)) = toLowerCase w"
    by (simp add: toLowerCase_def take_map drop_map)
  moreover have "s = take (length xs) s
                     @ take (length w) (drop (length xs) s)
                     @ drop (length w) (drop (length xs) s)"
    by (simp only: append_take_drop_id)
  ultimately have "\<exists>before stretch after.
      s = before @ stretch @ after \<and> toLowerCase stretch = toLowerCase w"
    by blast
  then show "containsIgnoringCase s w"
    unfolding containsIgnoringCase_def by blast
next
  assume "containsIgnoringCase s w"
  then obtain before stretch after where "s = before @ stretch @ after"
      and "toLowerCase stretch = toLowerCase w"
    unfolding containsIgnoringCase_def by blast
  then have "toLowerCase s = toLowerCase before @ toLowerCase w @ toLowerCase after"
    by (simp add: toLowerCase_def)
  then show "str_includes (toLowerCase s) (toLowerCase w)"
    using str_includes_iff by blast
qed

lemma lowered_words: "toLowerCase ''event'' = ''event''" "toLowerCase ''market'' = ''market''"
  by code_simp+

lemma toolMatches_iff:
  "toolMatches t \<longleftrightarrow>
     (\<exists>n. tool_name t = Some n
        \<and> (containsIgnoringCase n ''event'' \<or> containsIgnoringCase n ''market''))"
proof (cases "tool_name t")
  case None
  then show ?thesis
    by (simp add: toolMatches_def)
next
  case (Some n)
  have "str_includes (toLowerCase n) ''event'' \<longleftrightarrow> containsIgnoringCase n ''event''"
    using includes_lowered [of n "''event''"] by (simp only: lowered_words)
  moreover have "str_includes (toLowerCase n) ''market'' \<longleftrightarrow> containsIgnoringCase n ''market''"
    using includes_lowered [of n "''market''"] by (simp only: lowered_words)
  ultimately show ?thesis
    using Some by (simp add: toolMatches_def)
qed

lemma fst_eff_bind: "\<exists>rest. fst (eff_bind m f) = fst m @ rest"
  by (cases m) (auto simp: eff_bind_def split: sum.splits prod.splits)

lemma fst_try_catch: "\<exists>more. fst (try_catch m h) = fst m @ more"
proof (cases m)
  case (Pair t r)
  then show ?thesis
    by (cases r) (simp_all add: try_catch_Inl try_catch_Inr)
qed

lemma composed_state:
  assumes "state = Some composed \<or> (state = None \<and> composeState runtime message = Inr composed)"
  shows "(case state of Some s \<Rightarrow> eff_return s | None \<Rightarrow> await (composeState runtime message))
         = ([], Inr composed)"
  using assms by (auto simp: eff_return_def await_def)

lemma events_steps_reach_find:
  assumes "getPolymarketClient ext env = (t0, Inr client)"
      and "state = Some composed \<or> (state = None \<and> composeState runtime message = Inr composed)"
      and "updateRecentMessageState runtime composed = Inr currentState"
      and "composeContext runtime currentState eventsTemplate = Inr eventsContext"
      and "generateObject_events runtime eventsContext = Inr params"
  shows "polymarketEventsSteps ext runtime env message state callback =
           eff_bind (t0, Inr ())
             (\<lambda>u. eff_bind (case find toolMatches (pm_tools client) of
                              None \<Rightarrow> eff_throw (JsError ''Events tool not found'')
                            | Some eventTool \<Rightarrow> eff_return eventTool) (\<lambda>eventTool.
                   eff_bind (runTool eventTool params) (\<lambda>result.
                   eff_bind (generateResponse_polymarket runtime currentState
                               ''GET_POLYMARKET_EVENTS'' result
                               ''Retrieved Polymarket events and markets successfully'')
                     (\<lambda>responseText.
                   eff_bind (invoke callback
                               \<lparr>cb_text = responseText, cb_content = ToolContent result\<rparr>) (\<lambda>u.
                   eff_return True)))))"
  unfolding polymarketEventsSteps_def
  by (simp only: assms(1) composed_state [OF assms(2)] eff_bind_Inr assms(3-5) eff_bind_await_Inr
      fst_conv snd_conv append_Nil)

text \<open>
  C8. Once the handler holds the tool list (the bootstrap returned it and the state and the
  parameters were obtained), the tool it runs is the first in list order whose name contains
  \<open>event\<close> or \<open>market\<close> as a case-insensitive substring; a tool without a name never
  matches. If no tool matches, the handler reports \<open>Events tool not found\<close>, which
  contains \<open>tool not found\<close>, through the callback and returns false; with a callback
  that throws on that report, what it throws leaves the handler.
\<close>

theorem events_tool_selection:
  assumes "getPolymarketClient ext env = (t0, Inr client)"
      and "state = Some composed \<or> (state = None \<and> composeState runtime message = Inr composed)"
      and "updateRecentMessageState runtime composed = Inr currentState"
      and "composeContext runtime currentState eventsTemplate = Inr eventsContext"
      and "generateObject_events runtime eventsContext = Inr params"
  shows "(\<forall>i < length (pm_tools client).
            toolMatches (pm_tools client ! i) \<and> (\<forall>j < i. \<not> toolMatches (pm_tools client ! j)) \<longrightarrow>
            find toolMatches (pm_tools client) = Some (pm_tools client ! i)
            \<and> (\<exists>rest. fst (polymarketEventsHandler ext runtime env message state callback)
                        = t0 @ fst (runTool (pm_tools client ! i) params) @ rest))
       \<and> ((\<forall>t \<in> set (pm_tools client). \<not> toolMatches t) \<longrightarrow>
            polymarketEventsHandler ext runtime env message state callback
              = (case callback of
                   None \<Rightarrow> (t0, Inr False)
                 | Some f \<Rightarrow>
                     (t0 @ [Callback \<lparr>cb_text = ''Error executing GET_POLYMARKET_EVENTS: Events tool not found'',
                                      cb_content = ErrorContent ''Events tool not found''\<rparr>],
                      case f \<lparr>cb_text = ''Error executing GET_POLYMARKET_EVENTS: Events tool not found'',
                              cb_content = ErrorContent ''Events tool not found''\<rparr> of
                        Inl thrownByCallback \<Rightarrow> Inl thrownByCallback
                      | Inr returned \<Rightarrow> Inr False))
            \<and> str_includes ''Events tool not found'' ''tool not found'')
       \<and> (\<forall>t. toolMatches t \<longleftrightarrow>
                (\<exists>n. tool_name t = Some n
                   \<and> (containsIgnoringCase n ''event'' \<or> containsIgnoringCase n ''market'')))"
proof (intro conjI allI impI)
  fix i
  assume i: "i < length (pm_tools client)"
    and first: "toolMatches (pm_tools client ! i) \<and> (\<forall>j < i. \<not> toolMatches (pm_tools client ! j))"
  then have "\<exists>k < length (pm_tools client). toolMatches (pm_tools client ! k)
                 \<and> pm_tools client ! i = pm_tools client ! k
                 \<and> (\<forall>j < k. \<not> toolMatches (pm_tools client ! j))"
    by blast
  then show found: "find toolMatches (pm_tools client) = Some (pm_tools client ! i)"
    by (simp only: find_Some_iff)
  obtain rest where run: "fst (eff_bind (runTool (pm_tools client ! i) params) (\<lambda>result.
                   eff_bind (generateResponse_polymarket runtime currentState
                               ''GET_POLYMARKET_EVENTS'' result
                               ''Retrieved Polymarket events and markets successfully'')
                     (\<lambda>responseText.
                   eff_bind (invoke callback
                               \<lparr>cb_text = responseText, cb_content = ToolContent result\<rparr>) (\<lambda>u.
                   eff_return True))))
                 = fst (runTool (pm_tools client ! i) params) @ rest"
    using fst_eff_bind by blast
  have steps: "fst (polymarketEventsSteps ext runtime env message state callback)
                 = t0 @ fst (runTool (pm_tools client ! i) params) @ rest"
    by (simp add: events_steps_reach_find [OF assms] found eff_bind_Inr eff_bind_return run)
  obtain more where "fst (polymarketEventsHandler ext runtime env message state callback)
                 = fst (polymarketEventsSteps ext runtime env message state callback) @ more"
    unfolding polymarketEventsHandler_def using fst_try_catch by blast
  with steps have "fst (polymarketEventsHandler ext runtime env message state callback)
                        = t0 @ fst (runTool (pm_tools client ! i) params) @ (rest @ more)"
    by simp
  then show "\<exists>rest. fst (polymarketEventsHandler ext runtime env message state callback)
                        = t0 @ fst (runTool (pm_tools client ! i) params) @ rest"
    by (rule exI)
next
  assume none: "\<forall>t \<in> set (pm_tools client). \<not> toolMatches t"
  then have "find toolMatches (pm_tools client) = None"
    by (simp add: find_None_iff)
  then have "polymarketEventsSteps ext runtime env message state callback
             = (t0, Inl (JsError ''Events tool not found''))"
    by (simp add: events_steps_reach_find [OF assms] eff_bind_Inr eff_bind_Inl eff_bind_throw
        eff_throw_def)
  then show "polymarketEventsHandler ext runtime env message state callback
              = (case callback of
                   None \<Rightarrow> (t0, Inr False)
                 | Some f \<Rightarrow>
                     (t0 @ [Callback \<lparr>cb_text = ''Error executing GET_POLYMARKET_EVENTS: Events tool not found'',
                                      cb_content = ErrorContent ''Events tool not found''\<rparr>],
                      case f \<lparr>cb_text = ''Error executing GET_POLYMARKET_EVENTS: Events tool not found'',
                              cb_content = ErrorContent ''Events tool not found''\<rparr> of
                        Inl thrownByCallback \<Rightarrow> Inl thrownByCallback
                      | Inr returned \<Rightarrow> Inr False))"
    by (cases callback)
       (simp_all add: polymarketEventsHandler_def try_catch_Inl handleError_def errorMessage_def
          invoke_def eff_bind_await_Inr call_def eff_bind_Inl eff_bind_return eff_bind_Inr
          eff_return_def split: sum.split)
next
  show "str_includes ''Events tool not found'' ''tool not found''"
    by code_simp
next
  fix t
  show "toolMatches t \<longleftrightarrow>
          (\<exists>n. tool_name t = Some n
             \<and> (containsIgnoringCase n ''event'' \<or> containsIgnoringCase n ''market''))"
    by (rule toolMatches_iff)
qed
lemma example_polymarket_client:
  "getPolymarketClient exampleExternals polymarketEnv
     = ([PrivateKeyToAccount ''0xkey'',
         CreateWalletClient \<lparr>address = ''0xA11CE''\<rparr> Polygon ''https://polygon-rpc.com'',
         GetOnChainTools \<lparr>wc_account = \<lparr>address = ''0xA11CE''\<rparr>, wc_chain = Polygon,
                           wc_transport = ''https://polygon-rpc.com''\<rparr> ''k'' ''s'' ''p''],
        Inr \<lparr>pm_tools = exampleTools,
             pm_walletClient = \<lparr>wc_account = \<lparr>address = ''0xA11CE''\<rparr>, wc_chain = Polygon,
                                 wc_transport = ''https://polygon-rpc.com''\<rparr>,
             pm_account = \<lparr>address = ''0xA11CE''\<rparr>\<rparr>)"
  by (simp add: getPolymarketClient_def polymarketEnv_def exampleExternals_def falsy_def
      orEmpty_def raising_def createWalletClient_def eff_bind_call_Inr eff_bind_return
      try_catch_Inr eff_return_def)

text \<open>
  Of the example tools the first matching one is the third, \<open>get_Polymarket_EVENTS\<close>; the
  fourth, \<open>list_markets\<close>, matches too and is not run.
\<close>

theorem events_tool_selection_witness:
  "find toolMatches exampleTools = Some (exampleTools ! 2)
   \<and> (\<exists>rest. fst (polymarketEventsHandler exampleExternals exampleRuntime polymarketEnv () None
                      (Some returningCallback))
                = [PrivateKeyToAccount ''0xkey'',
                   CreateWalletClient \<lparr>address = ''0xA11CE''\<rparr> Polygon ''https://polygon-rpc.com'',
                   GetOnChainTools \<lparr>wc_account = \<lparr>address = ''0xA11CE''\<rparr>, wc_chain = Polygon,
                                     wc_transport = ''https://polygon-rpc.com''\<rparr> ''k'' ''s'' ''p'']
                  @ [ToolExecute (Some ''get_Polymarket_EVENTS'') (JObj [])] @ rest)"
proof -
  let ?client = "\<lparr>pm_tools = exampleTools,
             pm_walletClient = \<lparr>wc_account = \<lparr>address = ''0xA11CE''\<rparr>, wc_chain = Polygon,
                                 wc_transport = ''https://polygon-rpc.com''\<rparr>,
             pm_account = \<lparr>address = ''0xA11CE''\<rparr>\<rparr>"
  have state: "(None :: unit option) = Some ()
               \<or> ((None :: unit option) = None \<and> composeState exampleRuntime () = Inr ())"
    by (simp add: exampleRuntime_def)
  have update: "updateRecentMessageState exampleRuntime () = Inr ()"
    by (simp add: exampleRuntime_def)
  have ctx: "composeContext exampleRuntime () eventsTemplate = Inr eventsTemplate"
    by (simp add: exampleRuntime_def)
  have params: "generateObject_events exampleRuntime eventsTemplate = Inr (JObj [])"
    by (simp add: exampleRuntime_def)
  have index: "2 < length (pm_tools ?client)"
    by (simp add: exampleTools_def)
  have first: "toolMatches (pm_tools ?client ! 2)
               \<and> (\<forall>j < 2. \<not> toolMatches (pm_tools ?client ! j))"
  proof -
    have "toolMatches (exampleTools ! 2)" "\<not> toolMatches (exampleTools ! 0)"
         "\<not> toolMatches (exampleTools ! 1)"
      by code_simp+
    moreover have "j < 2 \<Longrightarrow> j = 0 \<or> j = 1" for j :: nat
      by auto
    ultimately show ?thesis
      by auto
  qed
  have run: "fst (runTool (pm_tools ?client ! 2) (JObj []))
             = [ToolExecute (Some ''get_Polymarket_EVENTS'') (JObj [])]"
    by (simp add: exampleTools_def runTool_def eff_bind_call_Inr eff_return_def)
  from events_tool_selection [OF example_polymarket_client state update ctx params,
      where callback = "Some returningCallback", THEN conjunct1, rule_format, OF index first]
  have "find toolMatches (pm_tools ?client) = Some (pm_tools ?client ! 2)
        \<and> (\<exists>rest. fst (polymarketEventsHandler exampleExternals exampleRuntime polymarketEnv ()
                           None (Some returningCallback))
                = [PrivateKeyToAccount ''0xkey'',
                   CreateWalletClient \<lparr>address = ''0xA11CE''\<rparr> Polygon ''https://polygon-rpc.com'',
                   GetOnChainTools \<lparr>wc_account = \<lparr>address = ''0xA11CE''\<rparr>, wc_chain = Polygon,
                                     wc_transport = ''https://polygon-rpc.com''\<rparr> ''k'' ''s'' ''p'']
                  @ fst (runTool (pm_tools ?client ! 2) (JObj [])) @ rest)" .
  then show ?thesis
    unfolding run by simp
qed


section \<open>Serialization\<close>

text \<open>
  \<open>JSON.stringify\<close> throws exactly when it has no replacer and meets a BigInt; with the
  replacer of \<open>safeStringify\<close> it never throws.
\<close>

lemma serialize_succeeds_iff:
  "(\<exists>r. serializeJSONProperty rep gap ind v = Inr r) \<longleftrightarrow> (rep \<or> \<not> containsBigInt v)"
  "(\<exists>r. serializeElements rep gap ind xs = Inr r) \<longleftrightarrow> (rep \<or> \<not> anyBigInt xs)"
  "(\<exists>r. serializeMembers rep gap ind kvs = Inr r) \<longleftrightarrow> (rep \<or> \<not> anyMemberBigInt kvs)"
proof (induction rep gap ind v and rep gap ind xs and rep gap ind kvs
    rule: serializeJSONProperty_serializeElements_serializeMembers.induct)
  case (7 rep gap ind xs)
  then show ?case
    by (cases "serializeElements rep gap (ind @ gap) xs") auto
next
  case (8 rep gap ind kvs)
  then show ?case
    by (cases "serializeMembers rep gap (ind @ gap) kvs") auto
next
  case (10 rep gap ind x xs)
  then show ?case
    by (cases "serializeJSONProperty rep gap ind x"; cases "serializeElements rep gap ind xs") auto
next
  case (12 rep gap ind k v kvs)
  then show ?case
    by (cases "serializeJSONProperty rep gap ind v"; cases "serializeMembers rep gap ind kvs") auto
qed simp_all

lemma serialize_object_defined:
  "serializeJSONProperty rep gap ind (JObj kvs) = Inr r \<Longrightarrow> \<exists>b. r = Some b"
  by (cases "serializeMembers rep gap (ind @ gap) kvs") auto

lemma safeStringify_never_throws: "\<exists>r. safeStringify v = Inr r"
  using serialize_succeeds_iff(1) [of True "[]" "[]" v]
  by (simp add: safeStringify_def JSON_stringify_def)

lemma stringify_throws_iff:
  "(\<exists>e. JSON_stringify False gap v = Inl e) \<longleftrightarrow> containsBigInt v"
proof -
  have "(\<exists>e. JSON_stringify False gap v = Inl e) \<longleftrightarrow> \<not> (\<exists>r. JSON_stringify False gap v = Inr r)"
    by (cases "JSON_stringify False gap v") simp_all
  then show ?thesis
    using serialize_succeeds_iff(1) [of False gap "[]" v] by (simp add: JSON_stringify_def)
qed

section \<open>Metadata URI resolution\<close>

lemma not_plausible_empty: "\<not> plausible []"
  by (simp add: plausible_def startsWith_def)

lemma plausible_provided:
  "(\<not> falsy (map_option trim uri) \<and> plausible (orEmpty (map_option trim uri)))
     \<longleftrightarrow> (\<exists>u. uri = Some u \<and> plausible (trim u))"
proof (cases uri)
  case None
  then show ?thesis
    by (simp add: falsy_def)
next
  case (Some u)
  show ?thesis
  proof (cases "trim u = []")
    case True
    with Some show ?thesis
      by (simp add: falsy_def orEmpty_def not_plausible_empty)
  next
    case False
    with Some show ?thesis
      by (simp add: falsy_def orEmpty_def)
  qed
qed

lemma metadataBody_serializes:
  "\<exists>b. JSON_stringify False [] (metadataBody runtime env params) = Inr (Some b)"
proof -
  have "\<not> containsBigInt (metadataBody runtime env params)"
    by (simp add: metadataBody_def Let_def)
  then obtain r where r: "serializeJSONProperty False [] [] (metadataBody runtime env params) = Inr r"
    using serialize_succeeds_iff(1) [of False "[]" "[]"] by blast
  have "\<exists>kvs. metadataBody runtime env params = JObj kvs"
    by (simp add: metadataBody_def Let_def)
  then obtain kvs where "metadataBody runtime env params = JObj kvs"
    by (rule exE)
  with r have "\<exists>b. r = Some b"
    using serialize_object_defined [of False "[]" "[]" kvs r] by simp
  with r show ?thesis
    by (auto simp: JSON_stringify_def)
qed

lemma metadataBody_ignores_uri:
  "metadataBody runtime env (params\<lparr>m_uri := x\<rparr>) = metadataBody runtime env params"
  by (simp add: metadataBody_def Let_def)

lemma readPinResponse_silent: "fst (readPinResponse response) = []"
proof (cases "rs_ok response")
  case False
  then show ?thesis
    by (simp add: readPinResponse_def Let_def eff_bind_throw eff_bind_Inl eff_throw_def)
next
  case True
  show ?thesis
  proof (cases "rs_json response")
    case (Inl e)
    with True show ?thesis
      by (simp add: readPinResponse_def eff_simps)
  next
    case (Inr json)
    show ?thesis
    proof (cases "getProp json ''IpfsHash''")
      case (Inl e)
      with True Inr show ?thesis
        by (simp add: readPinResponse_def eff_simps)
    next
      case getInr: (Inr v)
      with True Inr show ?thesis
        by (simp add: readPinResponse_def eff_simps eff_throw_def eff_return_def)
    qed
  qed
qed

lemma readPinResponse_identifier:
  assumes "rs_ok response" and "rs_json response = Inr json"
      and "getProp json ''IpfsHash'' = Inr (JStr cid)" and "cid \<noteq> []"
  shows "readPinResponse response = ([], Inr (''ipfs://'' @ cid))"
  using assms by (simp add: readPinResponse_def eff_simps eff_bind_Inr eff_return_def)

text \<open>With no plausible URI and a pinning credential: exactly the pin request, then the reply.\<close>

lemma ensureMetadataUri_pins:
  assumes "\<not> (\<exists>u. m_uri params = Some u \<and> plausible (trim u))"
      and "\<not> falsy (env ''PINATA_JWT'')"
  shows "\<exists>b. JSON_stringify False [] (metadataBody runtime env params) = Inr (Some b)
            \<and> ensureMetadataUri runtime env params
                = eff_bind (call (Fetch (pinRequest (orEmpty (env ''PINATA_JWT'')) b))
                              (fetch runtime (pinRequest (orEmpty (env ''PINATA_JWT'')) b)))
                    readPinResponse"
proof -
  obtain b where b: "JSON_stringify False [] (metadataBody runtime env params) = Inr (Some b)"
    using metadataBody_serializes by blast
  from assms(1) have c: "(\<not> falsy (map_option trim (m_uri params))
                           \<and> plausible (orEmpty (map_option trim (m_uri params)))) = False"
    by (simp add: plausible_provided)
  from assms(2) have j: "falsy (env ''PINATA_JWT'') = False"
    by simp
  have "ensureMetadataUri runtime env params
                = eff_bind (call (Fetch (pinRequest (orEmpty (env ''PINATA_JWT'')) b))
                              (fetch runtime (pinRequest (orEmpty (env ''PINATA_JWT'')) b)))
                    readPinResponse"
    by (simp only: ensureMetadataUri_def Let_def c j if_False b eff_bind_await_Inr interpolate_def
        option.simps)
  with b show ?thesis
    by blast
qed

lemma ensureMetadataUri_without_credential:
  assumes "\<not> (\<exists>u. m_uri params = Some u \<and> plausible (trim u))"
      and "falsy (env ''PINATA_JWT'')"
  shows "ensureMetadataUri runtime env params
           = ([], Inl (JsError ''Missing PINATA_JWT. Cannot auto-generate metadata URI. Provide a valid uri or set PINATA_JWT to enable auto-pinning.''))"
proof -
  from assms(1) have c: "(\<not> falsy (map_option trim (m_uri params))
                           \<and> plausible (orEmpty (map_option trim (m_uri params)))) = False"
    by (simp add: plausible_provided)
  from assms(2) have j: "falsy (env ''PINATA_JWT'') = True"
    by simp
  show ?thesis
    by (simp only: ensureMetadataUri_def Let_def c j if_False if_True eff_throw_def)
qed

lemma pin_request_trace:
  "fst (eff_bind (call (Fetch req) r) readPinResponse) = [Fetch req]"
  by (cases r) (simp_all add: eff_bind_call_Inl eff_bind_call_Inr readPinResponse_silent)

text \<open>
  C2. (1) A supplied URI that, trimmed, starts with \<open>ipfs://\<close>, \<open>http://\<close> or
  \<open>https://\<close> is returned as trimmed, with no call made. Otherwise (no URI, or one that
  does not start so): (2) with \<open>PINATA_JWT\<close> unset or empty the resolution throws and no
  call is made; (3) with \<open>PINATA_JWT\<close> set the calls made are exactly one pin request, to
  the pinning endpoint, and when the service answers it with a content identifier the
  result is that identifier after \<open>ipfs://\<close>.
\<close>

theorem ensureMetadataUri_resolution:
  "(\<forall>u. m_uri params = Some u \<and> plausible (trim u) \<longrightarrow>
      ensureMetadataUri runtime env params = ([], Inr (trim u)))
   \<and> (\<not> (\<exists>u. m_uri params = Some u \<and> plausible (trim u)) \<and> falsy (env ''PINATA_JWT'') \<longrightarrow>
      ensureMetadataUri runtime env params
        = ([], Inl (JsError ''Missing PINATA_JWT. Cannot auto-generate metadata URI. Provide a valid uri or set PINATA_JWT to enable auto-pinning.'')))
   \<and> (\<not> (\<exists>u. m_uri params = Some u \<and> plausible (trim u)) \<and> \<not> falsy (env ''PINATA_JWT'') \<longrightarrow>
      (\<exists>req. fst (ensureMetadataUri runtime env params) = [Fetch req]
         \<and> pinRequests (fst (ensureMetadataUri runtime env params)) = [req]
         \<and> rq_url req = ''https://api.pinata.cloud/pinning/pinJSONToIPFS''
         \<and> (\<forall>response json cid.
               fetch runtime req = Inr response \<and> rs_ok response \<and> rs_json response = Inr json
               \<and> getProp json ''IpfsHash'' = Inr (JStr cid) \<and> cid \<noteq> [] \<longrightarrow>
               snd (ensureMetadataUri runtime env params) = Inr (''ipfs://'' @ cid))))"
proof (intro conjI allI impI)
  fix u
  assume u: "m_uri params = Some u \<and> plausible (trim u)"
  then have "\<exists>u. m_uri params = Some u \<and> plausible (trim u)"
    by blast
  then have "\<not> falsy (map_option trim (m_uri params))
             \<and> plausible (orEmpty (map_option trim (m_uri params)))"
    by (simp only: plausible_provided)
  moreover from u have "orEmpty (map_option trim (m_uri params)) = trim u"
    by (simp add: orEmpty_def)
  ultimately show "ensureMetadataUri runtime env params = ([], Inr (trim u))"
    by (simp add: ensureMetadataUri_def Let_def eff_return_def)
next
  assume "\<not> (\<exists>u. m_uri params = Some u \<and> plausible (trim u)) \<and> falsy (env ''PINATA_JWT'')"
  then show "ensureMetadataUri runtime env params
        = ([], Inl (JsError ''Missing PINATA_JWT. Cannot auto-generate metadata URI. Provide a valid uri or set PINATA_JWT to enable auto-pinning.''))"
    by (simp add: ensureMetadataUri_without_credential)
next
  assume a: "\<not> (\<exists>u. m_uri params = Some u \<and> plausible (trim u)) \<and> \<not> falsy (env ''PINATA_JWT'')"
  then obtain b where run: "ensureMetadataUri runtime env params
                = eff_bind (call (Fetch (pinRequest (orEmpty (env ''PINATA_JWT'')) b))
                              (fetch runtime (pinRequest (orEmpty (env ''PINATA_JWT'')) b)))
                    readPinResponse"
    using ensureMetadataUri_pins [of params env runtime] by blast
  let ?req = "pinRequest (orEmpty (env ''PINATA_JWT'')) b"
  have trace: "fst (ensureMetadataUri runtime env params) = [Fetch ?req]"
    by (simp only: run pin_request_trace)
  have answer: "\<forall>response json cid.
               fetch runtime ?req = Inr response \<and> rs_ok response \<and> rs_json response = Inr json
               \<and> getProp json ''IpfsHash'' = Inr (JStr cid) \<and> cid \<noteq> [] \<longrightarrow>
               snd (ensureMetadataUri runtime env params) = Inr (''ipfs://'' @ cid)"
    by (simp add: run eff_bind_call_Inr readPinResponse_identifier)
  have pins: "pinRequests (fst (ensureMetadataUri runtime env params)) = [?req]"
    by (simp add: trace pinRequests_def)
  have url: "rq_url ?req = ''https://api.pinata.cloud/pinning/pinJSONToIPFS''"
    by (simp add: pinRequest_def)
  from trace pins url answer
  show "\<exists>req. fst (ensureMetadataUri runtime env params) = [Fetch req]
         \<and> pinRequests (fst (ensureMetadataUri runtime env params)) = [req]
         \<and> rq_url req = ''https://api.pinata.cloud/pinning/pinJSONToIPFS''
         \<and> (\<forall>response json cid.
               fetch runtime req = Inr response \<and> rs_ok response \<and> rs_json response = Inr json
               \<and> getProp json ''IpfsHash'' = Inr (JStr cid) \<and> cid \<noteq> [] \<longrightarrow>
               snd (ensureMetadataUri runtime env params) = Inr (''ipfs://'' @ cid))"
    by (rule_tac x = "?req" in exI) (intro conjI; assumption)
qed

theorem ensureMetadataUri_resolution_witness:
  "ensureMetadataUri exampleRuntime pinataEnv (exampleMetadata (Some ''  https://example.org/coin.json ''))
     = ([], Inr ''https://example.org/coin.json'')
   \<and> (\<exists>req. fst (ensureMetadataUri exampleRuntime pinataEnv (exampleMetadata None)) = [Fetch req]
          \<and> rq_url req = ''https://api.pinata.cloud/pinning/pinJSONToIPFS'')
   \<and> snd (ensureMetadataUri exampleRuntime pinataEnv (exampleMetadata None)) = Inr ''ipfs://Qm1''"
proof -
  have supplied: "m_uri (exampleMetadata (Some ''  https://example.org/coin.json ''))
                    = Some ''  https://example.org/coin.json ''
                  \<and> plausible (trim ''  https://example.org/coin.json '')"
    by code_simp
  have trimmed: "trim ''  https://example.org/coin.json '' = ''https://example.org/coin.json''"
    by code_simp
  have first: "ensureMetadataUri exampleRuntime pinataEnv
                 (exampleMetadata (Some ''  https://example.org/coin.json ''))
               = ([], Inr ''https://example.org/coin.json'')"
    using ensureMetadataUri_resolution [of "exampleMetadata (Some ''  https://example.org/coin.json '')"
        exampleRuntime pinataEnv, THEN conjunct1, rule_format, OF supplied]
    by (simp only: trimmed)
  have missing: "\<not> (\<exists>u. m_uri (exampleMetadata None) = Some u \<and> plausible (trim u))
                 \<and> \<not> falsy (pinataEnv ''PINATA_JWT'')"
    by (simp add: exampleMetadata_def pinataEnv_def falsy_def)
  have pinned: "\<exists>req. fst (ensureMetadataUri exampleRuntime pinataEnv (exampleMetadata None)) = [Fetch req]
          \<and> rq_url req = ''https://api.pinata.cloud/pinning/pinJSONToIPFS''"
    using ensureMetadataUri_resolution [of "exampleMetadata None" exampleRuntime pinataEnv,
        THEN conjunct2, THEN conjunct2, rule_format, OF missing]
    by (elim exE conjE, rule_tac x = req in exI) (intro conjI; assumption)
  have answer: "snd (ensureMetadataUri exampleRuntime pinataEnv (exampleMetadata None)) = Inr ''ipfs://Qm1''"
    by code_simp
  show ?thesis
    by (intro conjI) (rule first, rule pinned, rule answer)
qed

section \<open>An implausible URI is dropped\<close>

lemma implausible_uri_like_none:
  assumes "\<not> plausible (trim u)"
  shows "ensureMetadataUri runtime env (params\<lparr>m_uri := Some u\<rparr>)
         = ensureMetadataUri runtime env (params\<lparr>m_uri := None\<rparr>)"
proof -
  have c1: "(\<not> falsy (map_option trim (m_uri (params\<lparr>m_uri := Some u\<rparr>)))
             \<and> plausible (orEmpty (map_option trim (m_uri (params\<lparr>m_uri := Some u\<rparr>))))) = False"
    using assms plausible_provided [of "m_uri (params\<lparr>m_uri := Some u\<rparr>)"] by simp
  have c2: "(\<not> falsy (map_option trim (m_uri (params\<lparr>m_uri := None\<rparr>)))
             \<and> plausible (orEmpty (map_option trim (m_uri (params\<lparr>m_uri := None\<rparr>))))) = False"
    using plausible_provided [of "m_uri (params\<lparr>m_uri := None\<rparr>)"] by simp
  show ?thesis
    by (simp only: ensureMetadataUri_def Let_def c1 c2 if_False metadataBody_ignores_uri)
qed

lemma metadataBody_update:
  "metadataBody (runtime\<lparr>generateObject_createCoin := g\<rparr>) = metadataBody runtime"
  by (simp add: fun_eq_iff metadataBody_def)

lemma runtime_update_irrelevant:
  "composeParameterContext (runtime\<lparr>generateObject_createCoin := g\<rparr>)
     = composeParameterContext runtime"
  "composeResponseContext (runtime\<lparr>generateObject_createCoin := g\<rparr>)
     = composeResponseContext runtime"
  "generateResponse (runtime\<lparr>generateObject_createCoin := g\<rparr>) = generateResponse runtime"
  "ensureMetadataUri (runtime\<lparr>generateObject_createCoin := g\<rparr>) = ensureMetadataUri runtime"
  by (simp_all add: fun_eq_iff composeParameterContext_def composeResponseContext_def
      generateResponse_def ensureMetadataUri_def metadataBody_update Let_def)

lemma createCoinSteps_with_parameters:
  "createCoinSteps ext getClients
     (runtime\<lparr>generateObject_createCoin := \<lambda>context. Inr parameters\<rparr>) env message state callback
   = eff_bind (getClients env) (\<lambda>clients.
     eff_bind (case state of Some s \<Rightarrow> eff_return s
               | None \<Rightarrow> await (composeState runtime message)) (\<lambda>composed.
     eff_bind (await (updateRecentMessageState runtime composed)) (\<lambda>currentState.
     eff_bind (composeParameterContext runtime ''CREATE_COIN'' currentState
                 ''Extract coin creation parameters including name, symbol, metadata URI (optional), payout recipient address. Optionally include image and description for metadata.'')
       (\<lambda>parameterContext.
     eff_bind (ensureMetadataUri runtime env
                 \<lparr>m_name = p_name parameters, m_symbol = p_symbol parameters,
                  m_uri = p_uri parameters, m_image = p_image parameters,
                  m_description = p_description parameters\<rparr>) (\<lambda>resolvedUri.
     eff_bind (call (CreateCoin
                       \<lparr>cp_name = p_name parameters, cp_symbol = p_symbol parameters,
                        cp_uri = resolvedUri, cp_payoutRecipient = p_payoutRecipient parameters,
                        cp_platformReferrer = (if falsy (p_platformReferrer parameters) then None
                                               else p_platformReferrer parameters),
                        cp_currency = (if p_currency parameters = Some ZORA then ZORA else ETH)\<rparr>
                       (zc_walletClient clients) (zc_publicClient clients) 120)
                 (createCoin ext
                    \<lparr>cp_name = p_name parameters, cp_symbol = p_symbol parameters,
                     cp_uri = resolvedUri, cp_payoutRecipient = p_payoutRecipient parameters,
                     cp_platformReferrer = (if falsy (p_platformReferrer parameters) then None
                                            else p_platformReferrer parameters),
                     cp_currency = (if p_currency parameters = Some ZORA then ZORA else ETH)\<rparr>
                    (zc_walletClient clients) (zc_publicClient clients) 120))
       (\<lambda>result.
     eff_bind (composeResponseContext runtime ''CREATE_COIN'' result currentState)
       (\<lambda>responseContext.
     eff_bind (generateResponse runtime responseContext) (\<lambda>response.
     eff_bind (if callback \<noteq> None
               then eff_bind (await (getProp result ''hash'')) (\<lambda>hash.
                    eff_bind (await (getProp result ''address'')) (\<lambda>address.
                    eff_bind (await (getProp result ''deployment'')) (\<lambda>deployment.
                    invoke callback
                      \<lparr>cb_text = response,
                       cb_content = CoinContent hash address deployment\<rparr>)))
               else eff_return ()) (\<lambda>u.
     eff_return True)))))))))"
  by (cases state)
     (simp_all add: createCoinSteps_def runtime_update_irrelevant eff_bind_await_Inr Let_def
        split del: if_split)

text \<open>
  C10. A supplied URI that, trimmed, does not start with \<open>ipfs://\<close>, \<open>http://\<close> or
  \<open>https://\<close> changes nothing: the resolution, and the whole run of the handler (every
  call it makes, the SDK call among them, and its outcome), are those of the same parameters
  with no URI. So the resolution fails when \<open>PINATA_JWT\<close> is unset or empty, and
  otherwise makes one pin request whose body is the metadata document assembled from the
  parameters without the URI.
\<close>

theorem implausible_uri_discarded:
  assumes "\<not> plausible (trim u)"
  shows "ensureMetadataUri runtime env (params\<lparr>m_uri := Some u\<rparr>)
           = ensureMetadataUri runtime env (params\<lparr>m_uri := None\<rparr>)
       \<and> createCoinHandler ext getClients
            (runtime\<lparr>generateObject_createCoin := \<lambda>context. Inr (parameters\<lparr>p_uri := Some u\<rparr>)\<rparr>)
            env message state callback
           = createCoinHandler ext getClients
               (runtime\<lparr>generateObject_createCoin := \<lambda>context. Inr (parameters\<lparr>p_uri := None\<rparr>)\<rparr>)
               env message state callback
       \<and> (falsy (env ''PINATA_JWT'') \<longrightarrow>
            ensureMetadataUri runtime env (params\<lparr>m_uri := Some u\<rparr>)
              = ([], Inl (JsError ''Missing PINATA_JWT. Cannot auto-generate metadata URI. Provide a valid uri or set PINATA_JWT to enable auto-pinning.'')))
       \<and> (\<not> falsy (env ''PINATA_JWT'') \<longrightarrow>
            (\<exists>b. JSON_stringify False [] (metadataBody runtime env (params\<lparr>m_uri := None\<rparr>))
                    = Inr (Some b)
               \<and> fst (ensureMetadataUri runtime env (params\<lparr>m_uri := Some u\<rparr>))
                    = [Fetch (pinRequest (orEmpty (env ''PINATA_JWT'')) b)]))"
proof (intro conjI impI)
  show "ensureMetadataUri runtime env (params\<lparr>m_uri := Some u\<rparr>)
           = ensureMetadataUri runtime env (params\<lparr>m_uri := None\<rparr>)"
    using assms by (rule implausible_uri_like_none)
next
  have "ensureMetadataUri runtime env
          (\<lparr>m_name = p_name parameters, m_symbol = p_symbol parameters, m_uri = None,
            m_image = p_image parameters, m_description = p_description parameters\<rparr>
           \<lparr>m_uri := Some u\<rparr>)
        = ensureMetadataUri runtime env
          (\<lparr>m_name = p_name parameters, m_symbol = p_symbol parameters, m_uri = None,
            m_image = p_image parameters, m_description = p_description parameters\<rparr>
           \<lparr>m_uri := None\<rparr>)"
    using assms by (rule implausible_uri_like_none)
  then have same: "ensureMetadataUri runtime env
          \<lparr>m_name = p_name parameters, m_symbol = p_symbol parameters, m_uri = Some u,
            m_image = p_image parameters, m_description = p_description parameters\<rparr>
        = ensureMetadataUri runtime env
          \<lparr>m_name = p_name parameters, m_symbol = p_symbol parameters, m_uri = None,
            m_image = p_image parameters, m_description = p_description parameters\<rparr>"
    by simp
  show "createCoinHandler ext getClients
            (runtime\<lparr>generateObject_createCoin := \<lambda>context. Inr (parameters\<lparr>p_uri := Some u\<rparr>)\<rparr>)
            env message state callback
           = createCoinHandler ext getClients
               (runtime\<lparr>generateObject_createCoin := \<lambda>context. Inr (parameters\<lparr>p_uri := None\<rparr>)\<rparr>)
               env message state callback"
    by (simp add: createCoinHandler_def createCoinSteps_with_parameters same)
next
  assume jwt: "falsy (env ''PINATA_JWT'')"
  have none: "\<not> (\<exists>v. m_uri (params\<lparr>m_uri := Some u\<rparr>) = Some v \<and> plausible (trim v))"
    using assms by simp
  from none jwt
  show "ensureMetadataUri runtime env (params\<lparr>m_uri := Some u\<rparr>)
              = ([], Inl (JsError ''Missing PINATA_JWT. Cannot auto-generate metadata URI. Provide a valid uri or set PINATA_JWT to enable auto-pinning.''))"
    by (rule ensureMetadataUri_without_credential)
next
  assume jwt: "\<not> falsy (env ''PINATA_JWT'')"
  have none: "\<not> (\<exists>v. m_uri (params\<lparr>m_uri := Some u\<rparr>) = Some v \<and> plausible (trim v))"
    using assms by simp
  from ensureMetadataUri_pins [of "params\<lparr>m_uri := Some u\<rparr>" env runtime, OF none jwt]
  obtain b where b: "JSON_stringify False [] (metadataBody runtime env (params\<lparr>m_uri := Some u\<rparr>))
                       = Inr (Some b)"
    and run: "ensureMetadataUri runtime env (params\<lparr>m_uri := Some u\<rparr>)
                = eff_bind (call (Fetch (pinRequest (orEmpty (env ''PINATA_JWT'')) b))
                              (fetch runtime (pinRequest (orEmpty (env ''PINATA_JWT'')) b)))
                    readPinResponse"
    by (elim exE conjE)
  from b have "JSON_stringify False [] (metadataBody runtime env (params\<lparr>m_uri := None\<rparr>))
                 = Inr (Some b)"
    by (simp only: metadataBody_ignores_uri)
  moreover have "fst (ensureMetadataUri runtime env (params\<lparr>m_uri := Some u\<rparr>))
                   = [Fetch (pinRequest (orEmpty (env ''PINATA_JWT'')) b)]"
    by (simp only: run pin_request_trace)
  ultimately show "\<exists>b. JSON_stringify False [] (metadataBody runtime env (params\<lparr>m_uri := None\<rparr>))
                    = Inr (Some b)
               \<and> fst (ensureMetadataUri runtime env (params\<lparr>m_uri := Some u\<rparr>))
                    = [Fetch (pinRequest (orEmpty (env ''PINATA_JWT'')) b)]"
    by (rule_tac x = b in exI) (intro conjI; assumption)
qed

theorem implausible_uri_discarded_witness:
  "\<not> plausible (trim ''my coin picture'')
   \<and> ensureMetadataUri exampleRuntime pinataEnv (exampleMetadata (Some ''my coin picture''))
       = ensureMetadataUri exampleRuntime pinataEnv (exampleMetadata None)
   \<and> snd (ensureMetadataUri exampleRuntime pinataEnv (exampleMetadata (Some ''my coin picture'')))
       = Inr ''ipfs://Qm1''"
proof -
  have implausible: "\<not> plausible (trim ''my coin picture'')"
    by code_simp
  have some: "(exampleMetadata None)\<lparr>m_uri := Some ''my coin picture''\<rparr>
              = exampleMetadata (Some ''my coin picture'')"
    and none: "(exampleMetadata None)\<lparr>m_uri := None\<rparr> = exampleMetadata None"
    by (simp_all add: exampleMetadata_def)
  have same: "ensureMetadataUri exampleRuntime pinataEnv (exampleMetadata (Some ''my coin picture''))
              = ensureMetadataUri exampleRuntime pinataEnv (exampleMetadata None)"
    using implausible_uri_discarded [OF implausible, of exampleRuntime pinataEnv "exampleMetadata None",
        THEN conjunct1]
    by (simp only: some none)
  have outcome: "snd (ensureMetadataUri exampleRuntime pinataEnv
                        (exampleMetadata (Some ''my coin picture''))) = Inr ''ipfs://Qm1''"
    by code_simp
  show ?thesis
    by (intro conjI) (rule implausible, rule same, rule outcome)
qed

section \<open>The handlers contain their exceptions\<close>

lemma callbacks_append: "callbacks (a @ b) = callbacks a @ callbacks b"
  by (simp add: callbacks_def)

lemma quiet_return: "quiet (eff_return x)"
  by (simp add: quiet_def eff_return_def callbacks_def)

lemma quiet_throw: "quiet (eff_throw e)"
  by (simp add: quiet_def eff_throw_def callbacks_def)

lemma quiet_await: "quiet (await r)"
  by (simp add: quiet_def await_def callbacks_def)

lemma quiet_bind:
  assumes "quiet m" and "\<And>x. quiet (f x)"
  shows "quiet (eff_bind m f)"
proof (cases m)
  case (Pair t r)
  with assms show ?thesis
    by (cases r) (simp_all add: quiet_def eff_bind_Inl eff_bind_Inr callbacks_append)
qed

lemma quiet_try_catch:
  assumes "quiet m" and "\<And>e. quiet (h e)"
  shows "quiet (try_catch m h)"
proof (cases m)
  case (Pair t r)
  with assms show ?thesis
    by (cases r) (simp_all add: quiet_def try_catch_Inl try_catch_Inr callbacks_append)
qed

lemma quiet_state:
  "quiet (case state of Some s \<Rightarrow> eff_return s | None \<Rightarrow> await r)"
  by (cases state) (simp_all add: quiet_return quiet_await)

lemma quiet_getZoraClients: "quiet (getZoraClients ext env)"
proof (cases "privateKeyToAccount ext (orEmpty (env ''ZORA_PRIVATE_KEY''))")
  case (Inl m)
  then show ?thesis
    by (simp add: getZoraClients_def Let_def raising_def eff_simps quiet_throw)
       (simp add: quiet_def callbacks_def)
next
  case (Inr a)
  then show ?thesis
    by (simp add: getZoraClients_def Let_def raising_def eff_simps quiet_throw
        createPublicClient_def createWalletClient_def eff_return_def)
       (simp add: quiet_def callbacks_def)
qed

lemma quiet_call_bootstrap:
  "quiet (call (PrivateKeyToAccount k) r)"
  "quiet (call (GetOnChainTools w a b c) r)"
  "quiet (createWalletClient acc ch url)"
  by (simp_all add: quiet_def call_def createWalletClient_def callbacks_def)

lemma quiet_getPolymarketClient: "quiet (getPolymarketClient ext env)"
  unfolding getPolymarketClient_def Let_def
  by (intro quiet_try_catch quiet_bind quiet_call_bootstrap quiet_await quiet_return quiet_throw
      if_split [where P = quiet, THEN iffD2] conjI impI)

lemma quiet_pin:
  "quiet (eff_bind (await x) (\<lambda>b. eff_bind (call (Fetch (req b)) (r b)) readPinResponse))"
  by (cases x) (simp_all add: eff_bind_await_Inl eff_bind_await_Inr quiet_def pin_request_trace
      callbacks_def)

lemma quiet_ensureMetadataUri: "quiet (ensureMetadataUri runtime env params)"
  unfolding ensureMetadataUri_def Let_def
  by (intro quiet_pin quiet_return quiet_throw if_split [where P = quiet, THEN iffD2] conjI impI)

lemma quiet_contexts:
  "quiet (composeParameterContext runtime actionName state description)"
  "quiet (composeResponseContext runtime actionName result state)"
  "quiet (generateResponse runtime context)"
  "quiet (generateResponse_polymarket runtime state actionName result successMessage)"
  unfolding composeParameterContext_def composeResponseContext_def generateResponse_def
    generateResponse_polymarket_def
  by (intro quiet_bind quiet_await)+

lemma quiet_sdk_calls:
  "quiet (call (CreateCoin p w c g) r)"
  "quiet (call (TradeCoin tp w a c) r')"
  by (simp_all add: quiet_def call_def callbacks_def)

lemma quiet_runTool: "quiet (runTool eventTool params)"
proof -
  have calls: "quiet (call (ToolExecute n params) r)" "quiet (call (ToolCall n params) r)" for n r
    by (simp_all add: quiet_def call_def callbacks_def)
  show ?thesis
    unfolding runTool_def
    by (intro quiet_bind if_split [where P = quiet, THEN iffD2] conjI impI quiet_return)
       (simp_all add: quiet_return calls split: option.split)
qed

lemma quietOnThrow_bind:
  assumes "quiet m" and "\<And>x. quietOnThrow (f x)"
  shows "quietOnThrow (eff_bind m f)"
proof (cases m)
  case (Pair t r)
  show ?thesis
  proof (cases r)
    case (Inl e)
    with Pair assms(1) show ?thesis
      by (simp add: quietOnThrow_def quiet_def eff_bind_Inl)
  next
    case (Inr x)
    with Pair assms(1) assms(2) [of x] show ?thesis
      by (simp add: quietOnThrow_def quiet_def eff_bind_Inr callbacks_append split: sum.splits)
  qed
qed

lemma quietOnThrow_invoke:
  assumes "callbackReturns callback"
  shows "quietOnThrow (invoke callback p)"
  using assms
  by (cases callback)
     (simp_all add: quietOnThrow_def invoke_def call_def eff_return_def callbackReturns_def)

lemma quietOnThrow_return: "quietOnThrow (eff_return x)"
  by (simp add: quietOnThrow_def eff_return_def)

lemma quietOnThrow_then_return:
  assumes "quietOnThrow m"
  shows "quietOnThrow (eff_bind m (\<lambda>u. eff_return y))"
proof (cases m)
  case (Pair t r)
  with assms show ?thesis
    by (cases r) (simp_all add: quietOnThrow_def eff_bind_Inl eff_bind_Inr eff_return_def)
qed

lemma quietOnThrow_createCoinSteps:
  assumes "callbackReturns callback"
  shows "quietOnThrow (createCoinSteps ext (getZoraClients ext) runtime env message state callback)"
  unfolding createCoinSteps_def Let_def
  by (intro quietOnThrow_bind quiet_getZoraClients quiet_state quiet_await quiet_contexts
      quiet_ensureMetadataUri quiet_sdk_calls quietOnThrow_then_return
      if_split [where P = quietOnThrow, THEN iffD2] conjI impI quietOnThrow_invoke [OF assms]
      quietOnThrow_return)

lemma quietOnThrow_tradeCoinSteps:
  assumes "callbackReturns callback"
  shows "quietOnThrow (tradeCoinSteps ext (getZoraClients ext) runtime env message state callback)"
  unfolding tradeCoinSteps_def Let_def
  by (intro quietOnThrow_bind quiet_getZoraClients quiet_state quiet_await quiet_contexts
      quiet_sdk_calls quietOnThrow_then_return
      if_split [where P = quietOnThrow, THEN iffD2] conjI impI quietOnThrow_invoke [OF assms]
      quietOnThrow_return)

lemma quietOnThrow_polymarketEventsSteps:
  assumes "callbackReturns callback"
  shows "quietOnThrow (polymarketEventsSteps ext runtime env message state callback)"
proof -
  have find: "quiet (case found of None \<Rightarrow> eff_throw e | Some eventTool \<Rightarrow> eff_return eventTool)"
    for found :: "tool option" and e
    by (cases found) (simp_all add: quiet_throw quiet_return)
  show ?thesis
    unfolding polymarketEventsSteps_def
    by (intro quietOnThrow_bind quiet_getPolymarketClient quiet_state quiet_await quiet_contexts
        find quiet_runTool quietOnThrow_then_return quietOnThrow_invoke [OF assms])
qed

text \<open>
  What a \<open>catch\<close> block of the handlers does with a thrown value: when \<open>String(error)\<close>
  throws, that leaves the block and the callback is not invoked; otherwise the callback, if
  there is one, is invoked with the report, and the block returns false or throws what the
  callback throws.
\<close>

lemma catch_block:
  "eff_bind (await (errorMessage error)) (\<lambda>errorMessage.
   eff_bind (invoke callback
               \<lparr>cb_text = prefix @ errorMessage, cb_content = ErrorContent errorMessage\<rparr>) (\<lambda>u.
   eff_return False))
   = (case errorMessage error of
        Inl x \<Rightarrow> ([], Inl x)
      | Inr m \<Rightarrow>
          (case callback of
             None \<Rightarrow> ([], Inr False)
           | Some f \<Rightarrow>
               ([Callback \<lparr>cb_text = prefix @ m, cb_content = ErrorContent m\<rparr>],
                case f \<lparr>cb_text = prefix @ m, cb_content = ErrorContent m\<rparr> of
                  Inl x \<Rightarrow> Inl x
                | Inr u \<Rightarrow> Inr False)))"
  by (simp add: eff_bind_await_Inl eff_bind_await_Inr invoke_def call_def eff_bind_Inl
      eff_bind_Inr eff_bind_return eff_return_def split: sum.split option.split)

lemma exceptions_contained:
  assumes "quietOnThrow steps"
      and "handler = try_catch steps (\<lambda>error.
             eff_bind (await (errorMessage error)) (\<lambda>errorMessage.
             eff_bind (invoke callback
                         \<lparr>cb_text = prefix @ errorMessage,
                          cb_content = ErrorContent errorMessage\<rparr>) (\<lambda>u.
             eff_return False)))"
      and "prefix \<noteq> []"
      and "callbackReturns callback"
  shows "containsExceptions steps handler callback prefix"
proof (cases steps)
  case (Pair t r)
  show ?thesis
  proof (cases r)
    case (Inr b)
    with Pair assms(2) show ?thesis
      by (simp add: containsExceptions_def try_catch_Inr)
  next
    case (Inl e)
    with Pair assms(1) have "callbacks t = []"
      by (simp add: quietOnThrow_def)
    with Pair Inl assms(2,3,4) show ?thesis
      by (cases callback)
         (auto simp add: containsExceptions_def try_catch_Inl catch_block callbackReturns_def
            callbacks_append callbacks_def)
  qed
qed

text \<open>
  C1. Each of the three handlers (the Zora ones with the client bootstrap that plugin load
  installs), when it is given no callback or a callback that never throws: if the steps of
  its \<open>try\<close> block return, the handler returns what they return; and whenever a step
  throws, at the bootstrap, at the runtime, at the pin service, at the SDK or tool, at the
  serialization or at the response generation, an \<open>Error\<close> or a value that \<open>String\<close>
  converts, the handler returns false and the callback, when one was passed, has been
  invoked exactly once, with the handler's error prefix followed by the message as text,
  which is not empty, and \<open>{error: message}\<close> as content; the message is \<open>error.message\<close>
  for an \<open>Error\<close> and \<open>String(error)\<close> for any other thrown value. No exception leaves
  the handler then.
\<close>

theorem handlers_contain_exceptions:
  assumes "callbackReturns callback"
  shows
  "containsExceptions (createCoinSteps ext (getZoraClients ext) runtime env message state callback)
     (createCoinHandler ext (getZoraClients ext) runtime env message state callback)
     callback ''Error creating coin: ''
   \<and> containsExceptions (tradeCoinSteps ext (getZoraClients ext) runtime env message state callback)
       (tradeCoinHandler ext (getZoraClients ext) runtime env message state callback)
       callback ''Error trading coin: ''
   \<and> containsExceptions (polymarketEventsSteps ext runtime env message state callback)
       (polymarketEventsHandler ext runtime env message state callback)
       callback ''Error executing GET_POLYMARKET_EVENTS: ''"
proof (intro conjI)
  show "containsExceptions (createCoinSteps ext (getZoraClients ext) runtime env message state callback)
     (createCoinHandler ext (getZoraClients ext) runtime env message state callback)
     callback ''Error creating coin: ''"
    by (rule exceptions_contained [OF quietOnThrow_createCoinSteps [OF assms] _ _ assms])
       (simp_all add: createCoinHandler_def)
next
  show "containsExceptions (tradeCoinSteps ext (getZoraClients ext) runtime env message state callback)
       (tradeCoinHandler ext (getZoraClients ext) runtime env message state callback)
       callback ''Error trading coin: ''"
    by (rule exceptions_contained [OF quietOnThrow_tradeCoinSteps [OF assms] _ _ assms])
       (simp_all add: tradeCoinHandler_def)
next
  show "containsExceptions (polymarketEventsSteps ext runtime env message state callback)
       (polymarketEventsHandler ext runtime env message state callback)
       callback ''Error executing GET_POLYMARKET_EVENTS: ''"
    by (rule exceptions_contained [OF quietOnThrow_polymarketEventsSteps [OF assms] _ _ assms])
       (simp_all add: polymarketEventsHandler_def handleError_def)
qed

text \<open>A trade that the SDK rejects by throwing the string \<open>reverted\<close>, with a callback that returns.\<close>

theorem handlers_contain_exceptions_witness:
  "callbackReturns (Some returningCallback)
   \<and> snd (tradeCoinSteps exampleExternals (getZoraClients exampleExternals) exampleRuntime
          (zoraEnv ''base'' ''https://mainnet.base.org'') () None (Some returningCallback))
     = Inl (JsValue (JStr ''reverted''))
   \<and> errorMessage (JsValue (JStr ''reverted'')) = Inr ''reverted''
   \<and> snd (tradeCoinHandler exampleExternals (getZoraClients exampleExternals) exampleRuntime
            (zoraEnv ''base'' ''https://mainnet.base.org'') () None (Some returningCallback))
     = Inr False
   \<and> callbacks (fst (tradeCoinHandler exampleExternals (getZoraClients exampleExternals)
                       exampleRuntime (zoraEnv ''base'' ''https://mainnet.base.org'') () None
                       (Some returningCallback)))
       = [\<lparr>cb_text = ''Error trading coin: reverted'', cb_content = ErrorContent ''reverted''\<rparr>]"
proof -
  let ?env = "zoraEnv ''base'' ''https://mainnet.base.org''"
  let ?trace =
    "[PrivateKeyToAccount ''0xkey'',
      CreatePublicClient Base ''https://mainnet.base.org'',
      CreateWalletClient \<lparr>address = ''0xA11CE''\<rparr> Base ''https://mainnet.base.org'',
      TradeCoin
        \<lparr>tp_sell = Eth, tp_buy = Erc20, tp_buy_address = ''0xc'',
         tp_amountIn = 1000000000000000, tp_slippage = ''0.05'', tp_sender = ''0xA11CE''\<rparr>
        \<lparr>wc_account = \<lparr>address = ''0xA11CE''\<rparr>, wc_chain = Base,
         wc_transport = ''https://mainnet.base.org''\<rparr>
        \<lparr>address = ''0xA11CE''\<rparr>
        \<lparr>pc_chain = Base, pc_transport = ''https://mainnet.base.org''\<rparr>]"
  have returns: "callbackReturns (Some returningCallback)"
    by (simp add: callbackReturns_def returningCallback_def)
  have thrown: "tradeCoinSteps exampleExternals (getZoraClients exampleExternals) exampleRuntime
                  ?env () None (Some returningCallback)
                = (?trace, Inl (JsValue (JStr ''reverted'')))"
    by code_simp
  have message: "errorMessage (JsValue (JStr ''reverted'')) = Inr ''reverted''"
    by (simp add: errorMessage_def)
  from handlers_contain_exceptions [OF returns, of exampleExternals exampleRuntime ?env "()" None,
      THEN conjunct2, THEN conjunct1, unfolded containsExceptions_def, THEN conjunct2,
      rule_format, OF conjI, OF thrown message]
  have "snd (tradeCoinHandler exampleExternals (getZoraClients exampleExternals) exampleRuntime
               ?env () None (Some returningCallback)) = Inr False
        \<and> callbacks (fst (tradeCoinHandler exampleExternals (getZoraClients exampleExternals)
                            exampleRuntime ?env () None (Some returningCallback)))
            = [\<lparr>cb_text = ''Error trading coin: reverted'', cb_content = ErrorContent ''reverted''\<rparr>]"
    by simp
  with returns thrown message show ?thesis
    by simp
qed

text \<open>
  Without these two provisions an exception does leave the handler. A trade that the SDK
  rejects, with a callback that throws: the handler throws what the callback throws. A trade
  that settles, with the same callback: the callback is invoked from the \<open>try\<close> block and,
  as its exception is caught there, a second time from the \<open>catch\<close> block, and the handler
  throws. A trade that the SDK rejects with an object that has no prototype, with a callback
  that returns: the handler throws the \<open>TypeError\<close> of \<open>String(error)\<close> and the callback
  is not invoked.
\<close>

theorem handlers_let_exceptions_escape:
  "snd (tradeCoinSteps exampleExternals (getZoraClients exampleExternals) exampleRuntime
          (zoraEnv ''base'' ''https://mainnet.base.org'') () None (Some throwingCallback))
     = Inl (JsValue (JStr ''reverted''))
   \<and> snd (tradeCoinHandler exampleExternals (getZoraClients exampleExternals) exampleRuntime
          (zoraEnv ''base'' ''https://mainnet.base.org'') () None (Some throwingCallback))
     = Inl (JsError ''channel closed'')
   \<and> callbacks (fst (tradeCoinHandler settlingExternals (getZoraClients settlingExternals)
                       exampleRuntime (zoraEnv ''base'' ''https://mainnet.base.org'') () None
                       (Some throwingCallback)))
     = [\<lparr>cb_text = ''done'',
         cb_content = TradeContent (JStr ''0xt'') (JObj [(''hash'', JStr ''0xt'')])\<rparr>,
        \<lparr>cb_text = ''Error trading coin: channel closed'',
         cb_content = ErrorContent ''channel closed''\<rparr>]
   \<and> snd (tradeCoinHandler settlingExternals (getZoraClients settlingExternals) exampleRuntime
          (zoraEnv ''base'' ''https://mainnet.base.org'') () None (Some throwingCallback))
     = Inl (JsError ''channel closed'')
   \<and> snd (tradeCoinHandler opaqueExternals (getZoraClients opaqueExternals) exampleRuntime
          (zoraEnv ''base'' ''https://mainnet.base.org'') () None (Some returningCallback))
     = Inl (JsError ''Cannot convert object to primitive value'')
   \<and> callbacks (fst (tradeCoinHandler opaqueExternals (getZoraClients opaqueExternals)
                       exampleRuntime (zoraEnv ''base'' ''https://mainnet.base.org'') () None
                       (Some returningCallback)))
     = []"
  by code_simp

section \<open>Large integers in results\<close>

lemma natToString_numeral:
  "natToString (numeral k) =
     (if numeral k < (10::nat) then [digitChar (numeral k)]
      else natToString (numeral k div 10) @ [digitChar (numeral k mod 10)])"
  by (rule natToString.simps)

lemma natToString_small: "natToString 0 = ''0''" "natToString (Suc 0) = ''1''"
  by (subst natToString.simps, simp add: digitChar_def)+

lemmas render_numeral = natToString_numeral natToString_small digitChar_def bigintToString_def

lemma digitChar_code: "n < 10 \<Longrightarrow> of_char (digitChar n) = 48 + n"
proof -
  assume "n < 10"
  have "list_all (\<lambda>d. of_char (digitChar d) = (48 + d :: nat)) [0..<10]"
    by code_simp
  with \<open>n < 10\<close> show ?thesis
    by (simp add: list_all_iff)
qed

lemma decimalValue_snoc:
  "decimalValue (s @ [c]) = 10 * decimalValue s + (of_char c - 48)"
  by (simp add: decimalValue_def)

text \<open>The digits that \<open>toString\<close> writes for a BigInt stand for that very integer.\<close>

lemma decimalValue_natToString: "decimalValue (natToString n) = n"
proof (induction n rule: natToString.induct)
  case (1 n)
  show ?case
  proof (cases "n < 10")
    case True
    then have "natToString n = [digitChar n]"
      by (subst natToString.simps) simp
    with True show ?thesis
      by (simp add: decimalValue_def digitChar_code)
  next
    case False
    then have "natToString n = natToString (n div 10) @ [digitChar (n mod 10)]"
      by (subst natToString.simps) simp
    moreover have "decimalValue (natToString (n div 10)) = n div 10"
      using False "1.IH" by simp
    ultimately show ?thesis
      by (simp add: decimalValue_snoc digitChar_code)
  qed
qed

lemma natToString_starts_with_digit:
  "\<exists>c cs. natToString n = c # cs \<and> c \<noteq> CHR ''-''"
proof (induction n rule: natToString.induct)
  case (1 n)
  show ?case
  proof (cases "n < 10")
    case True
    then have "natToString n = [digitChar n]"
      by (subst natToString.simps) simp
    moreover from True have "of_char (digitChar n) = 48 + n"
      by (rule digitChar_code)
    then have "digitChar n \<noteq> CHR ''-''"
      by auto
    ultimately show ?thesis
      by simp
  next
    case False
    then have "natToString n = natToString (n div 10) @ [digitChar (n mod 10)]"
      by (subst natToString.simps) simp
    moreover from False "1.IH" obtain c cs where "natToString (n div 10) = c # cs" "c \<noteq> CHR ''-''"
      by blast
    ultimately show ?thesis
      by simp
  qed
qed

lemma parseBigInt_bigintToString: "parseBigInt (bigintToString i) = i"
proof (cases "i < 0")
  case True
  then show ?thesis
    by (simp add: parseBigInt_def bigintToString_def decimalValue_natToString)
next
  case False
  obtain c cs where "natToString (nat i) = c # cs" "c \<noteq> CHR ''-''"
    using natToString_starts_with_digit by blast
  with False decimalValue_natToString [of "nat i"] show ?thesis
    by (simp add: parseBigInt_def bigintToString_def)
qed

lemma safeStringify_BigInt:
  "safeStringify (JBigInt i) = Inr (Some (quoteJSONString (bigintToString i)))"
  by (simp add: safeStringify_def JSON_stringify_def replacer_def)

text \<open>
  With the replacer, \<open>JSON.stringify\<close> writes what it writes without one for the value
  whose BigInts have been replaced by their digit strings; that value has no BigInt left.
\<close>

lemma replacer_serializes_digit_strings:
  "rep \<Longrightarrow> serializeJSONProperty rep gap ind v
             = serializeJSONProperty False gap ind (bigintsAsStrings v)"
  "rep \<Longrightarrow> serializeElements rep gap ind xs
             = serializeElements False gap ind (elementsAsStrings xs)"
  "rep \<Longrightarrow> serializeMembers rep gap ind kvs
             = serializeMembers False gap ind (membersAsStrings kvs)"
proof (induction rep gap ind v and rep gap ind xs and rep gap ind kvs
    rule: serializeJSONProperty_serializeElements_serializeMembers.induct)
  case (10 rep gap ind x xs)
  then show ?case
    by (cases "serializeJSONProperty rep gap ind x") simp_all
next
  case (12 rep gap ind k v kvs)
  then show ?case
    by (cases "serializeJSONProperty rep gap ind v") simp_all
qed (simp_all add: replacer_def)

lemma bigintsAsStrings_has_no_BigInt:
  "\<not> containsBigInt (bigintsAsStrings v)"
  "\<not> anyBigInt (elementsAsStrings xs)"
  "\<not> anyMemberBigInt (membersAsStrings kvs)"
  by (induction v and xs and kvs rule: bigintsAsStrings_elementsAsStrings_membersAsStrings.induct)
     simp_all

text \<open>Without the replacer, what \<open>JSON.stringify\<close> throws is the \<open>TypeError\<close> for a BigInt.\<close>

lemma serialize_throws_TypeError:
  "serializeJSONProperty rep gap ind v = Inl e
     \<Longrightarrow> e = JsError ''Do not know how to serialize a BigInt''"
  "serializeElements rep gap ind xs = Inl e
     \<Longrightarrow> e = JsError ''Do not know how to serialize a BigInt''"
  "serializeMembers rep gap ind kvs = Inl e
     \<Longrightarrow> e = JsError ''Do not know how to serialize a BigInt''"
  by (induction rep gap ind v and rep gap ind xs and rep gap ind kvs
      rule: serializeJSONProperty_serializeElements_serializeMembers.induct)
     (simp_all split: if_splits sum.splits)

lemma stringify_BigInt_throws:
  assumes "containsBigInt v"
  shows "JSON_stringify False gap v = Inl (JsError ''Do not know how to serialize a BigInt'')"
proof -
  from assms obtain e where thrown: "JSON_stringify False gap v = Inl e"
    using stringify_throws_iff [of gap v] by blast
  then have "e = JsError ''Do not know how to serialize a BigInt''"
    unfolding JSON_stringify_def by (rule serialize_throws_TypeError(1))
  with thrown show ?thesis
    by simp
qed

text \<open>
  C5. In the two Zora handlers the result is embedded into the response prompt by
  \<open>composeResponseContext\<close>, which serializes it with \<open>safeStringify\<close>. For every result
  value, whatever BigInts it holds: \<open>safeStringify\<close> does not throw, and the prompt is
  composed with what it returns; it returns what \<open>JSON.stringify\<close> returns for the value
  whose BigInts have been replaced by their decimal digit strings, in which no BigInt is
  left; a BigInt is written as the quoted string of its digits, and these digits read back
  give the same integer, however large. The Polymarket handler embeds the result with its
  own \<open>generateResponse\<close>, which calls \<open>JSON.stringify(result, null, 2)\<close> with no
  replacer: that returns for exactly the results that hold no BigInt, and for a result
  that holds one \<open>generateResponse\<close> throws a \<open>TypeError\<close> before it composes the prompt.
\<close>

theorem result_serialization:
  "(\<exists>serialized. safeStringify result = Inr serialized
      \<and> composeResponseContext runtime actionName result state
          = await (composeContext runtime state (unlines
              (templateHead
               @ [''The Zora action '' @ [CHR 0x22] @ actionName @ [CHR 0x22]
                    @ '' was executed successfully.'',
                  ''Here is the result:'',
                  interpolate serialized]
               @ templateTail))))
   \<and> safeStringify result = JSON_stringify False [] (bigintsAsStrings result)
   \<and> \<not> containsBigInt (bigintsAsStrings result)
   \<and> safeStringify (JBigInt i) = Inr (Some (quoteJSONString (bigintToString i)))
   \<and> parseBigInt (bigintToString i) = i
   \<and> ((\<exists>serialized. JSON_stringify False ''  '' result = Inr serialized)
        \<longleftrightarrow> \<not> containsBigInt result)
   \<and> (containsBigInt result \<longrightarrow>
        generateResponse_polymarket runtime state actionName result successMessage
          = ([], Inl (JsError ''Do not know how to serialize a BigInt'')))"
proof (intro conjI impI)
  obtain serialized where returned: "safeStringify result = Inr serialized"
    using safeStringify_never_throws by blast
  then have "composeResponseContext runtime actionName result state
          = await (composeContext runtime state (unlines
              (templateHead
               @ [''The Zora action '' @ [CHR 0x22] @ actionName @ [CHR 0x22]
                    @ '' was executed successfully.'',
                  ''Here is the result:'',
                  interpolate serialized]
               @ templateTail)))"
    by (simp only: composeResponseContext_def eff_bind_await_Inr)
  with returned show "\<exists>serialized. safeStringify result = Inr serialized
      \<and> composeResponseContext runtime actionName result state
          = await (composeContext runtime state (unlines
              (templateHead
               @ [''The Zora action '' @ [CHR 0x22] @ actionName @ [CHR 0x22]
                    @ '' was executed successfully.'',
                  ''Here is the result:'',
                  interpolate serialized]
               @ templateTail)))"
    by (intro exI conjI)
next
  show "safeStringify result = JSON_stringify False [] (bigintsAsStrings result)"
    by (simp add: safeStringify_def JSON_stringify_def replacer_serializes_digit_strings(1))
next
  show "\<not> containsBigInt (bigintsAsStrings result)"
    by (rule bigintsAsStrings_has_no_BigInt(1))
next
  show "safeStringify (JBigInt i) = Inr (Some (quoteJSONString (bigintToString i)))"
    by (rule safeStringify_BigInt)
next
  show "parseBigInt (bigintToString i) = i"
    by (rule parseBigInt_bigintToString)
next
  show "(\<exists>serialized. JSON_stringify False ''  '' result = Inr serialized)
          \<longleftrightarrow> \<not> containsBigInt result"
    using serialize_succeeds_iff(1) [of False "''  ''" "[]" result]
    by (simp add: JSON_stringify_def)
next
  assume "containsBigInt result"
  then have "JSON_stringify False ''  '' result
               = Inl (JsError ''Do not know how to serialize a BigInt'')"
    by (rule stringify_BigInt_throws)
  then show "generateResponse_polymarket runtime state actionName result successMessage
          = ([], Inl (JsError ''Do not know how to serialize a BigInt''))"
    by (simp only: generateResponse_polymarket_def eff_bind_await_Inl)
qed

text \<open>
  A result of coin creation with a supply of \<open>10\<^sup>2\<^sup>1\<close>, which no Number holds exactly:
  \<open>safeStringify\<close> gives \<open>{"supply":"1000000000000000000000"}\<close>, whose digits read back
  give the supply; the \<open>generateResponse\<close> of the Polymarket plugin throws for it.
\<close>

theorem result_serialization_witness:
  "safeStringify (JObj [(''supply'', JBigInt 1000000000000000000000)])
     = Inr (Some (''{'' @ [CHR 0x22] @ ''supply'' @ [CHR 0x22] @ '':''
                  @ [CHR 0x22] @ ''1000000000000000000000'' @ [CHR 0x22] @ ''}''))
   \<and> parseBigInt ''1000000000000000000000'' = 1000000000000000000000
   \<and> containsBigInt (JObj [(''supply'', JBigInt 1000000000000000000000)])
   \<and> generateResponse_polymarket exampleRuntime () ''GET_POLYMARKET_EVENTS''
        (JObj [(''supply'', JBigInt 1000000000000000000000)])
        ''Retrieved Polymarket events and markets successfully''
      = ([], Inl (JsError ''Do not know how to serialize a BigInt''))"
proof -
  let ?result = "JObj [(''supply'', JBigInt 1000000000000000000000)]"
  have digits: "bigintToString 1000000000000000000000 = ''1000000000000000000000''"
    by (simp add: render_numeral)
  have quoted: "quoteJSONString ''supply'' = [CHR 0x22] @ ''supply'' @ [CHR 0x22]"
    "quoteJSONString ''1000000000000000000000''
       = [CHR 0x22] @ ''1000000000000000000000'' @ [CHR 0x22]"
    by code_simp+
  have holds: "containsBigInt ?result"
    by simp
  have plain: "JSON_stringify False [] (bigintsAsStrings ?result)
                 = Inr (Some (''{'' @ quoteJSONString ''supply'' @ '':''
                              @ quoteJSONString ''1000000000000000000000'' @ ''}''))"
    by (simp add: JSON_stringify_def bracket_def digits)
  note serialization = result_serialization [of ?result exampleRuntime "''GET_POLYMARKET_EVENTS''"
      "()" 1000000000000000000000 "''Retrieved Polymarket events and markets successfully''"]
  from serialization have "safeStringify ?result = JSON_stringify False [] (bigintsAsStrings ?result)"
    by (elim conjE)
  with plain have safe: "safeStringify ?result
     = Inr (Some (''{'' @ [CHR 0x22] @ ''supply'' @ [CHR 0x22] @ '':''
                  @ [CHR 0x22] @ ''1000000000000000000000'' @ [CHR 0x22] @ ''}''))"
    by (simp add: quoted)
  from serialization have "parseBigInt (bigintToString 1000000000000000000000) = 1000000000000000000000"
    by (elim conjE)
  then have digitsRead: "parseBigInt ''1000000000000000000000'' = 1000000000000000000000"
    by (simp only: digits)
  from serialization holds
  have thrown: "generateResponse_polymarket exampleRuntime () ''GET_POLYMARKET_EVENTS'' ?result
        ''Retrieved Polymarket events and markets successfully''
      = ([], Inl (JsError ''Do not know how to serialize a BigInt''))"
    by (elim conjE) (erule mp)
  show ?thesis
    by (intro conjI) (rule safe, rule digitsRead, rule holds, rule thrown)
qed

text \<open>
  The serialization step does throw in one handler: the \<open>generateResponse\<close> of the
  Polymarket plugin, given the result \<open>{volume: 18446744073709551616n}\<close>, throws the
  \<open>TypeError\<close> of \<open>JSON.stringify\<close> and composes no prompt.
\<close>

theorem polymarket_generateResponse_throws_on_BigInt:
  "generateResponse_polymarket exampleRuntime () ''GET_POLYMARKET_EVENTS''
     (JObj [(''volume'', JBigInt 18446744073709551616)])
     ''Retrieved Polymarket events and markets successfully''
   = ([], Inl (JsError ''Do not know how to serialize a BigInt''))"
  by (simp add: generateResponse_polymarket_def JSON_stringify_def eff_bind_await_Inl)

end
